theory Spec2Isabelle
  imports Complex_Main
begin

section \<open>Strings and Python built-ins used by the script\<close>

text \<open>
  Python strings are modelled as \<^typ>\<open>string\<close>. The model is exact for ASCII text; a
  non-ASCII character is a run of opaque UTF-8 bytes, so Unicode white space and Unicode
  decimal digits (which \<^verbatim>\<open>str.strip\<close> and \<^verbatim>\<open>int\<close> also accept) are outside it.
\<close>

definition is_space :: "char \<Rightarrow> bool" where
  \<comment> \<open>\<^verbatim>\<open>str.isspace\<close> on ASCII: TAB, LF, VT, FF, CR, FS, GS, RS, US and the blank.\<close>
  "is_space c = (let n = of_char c :: nat in (9 \<le> n \<and> n \<le> 13) \<or> (28 \<le> n \<and> n \<le> 32))"

definition lstrip :: "string \<Rightarrow> string" where
  "lstrip s = dropWhile is_space s"

definition rstrip :: "string \<Rightarrow> string" where
  "rstrip s = rev (dropWhile is_space (rev s))"

definition strip :: "string \<Rightarrow> string" where
  \<comment> \<open>\<^verbatim>\<open>s.strip()\<close>\<close>
  "strip s = rstrip (lstrip s)"

definition lstrip_slash :: "string \<Rightarrow> string" where
  \<comment> \<open>\<^verbatim>\<open>s.lstrip("/")\<close>\<close>
  "lstrip_slash s = dropWhile (\<lambda>c. c = CHR ''/'') s"

definition remove_commas :: "string \<Rightarrow> string" where
  \<comment> \<open>\<^verbatim>\<open>s.replace(",", "")\<close>\<close>
  "remove_commas s = filter (\<lambda>c. c \<noteq> CHR '','') s"

definition first_part :: "string \<Rightarrow> string" where
  \<comment> \<open>\<^verbatim>\<open>s.split(" ")[0]\<close>: the split on single blanks always has a first part.\<close>
  "first_part s = takeWhile (\<lambda>c. c \<noteq> CHR '' '') s"

definition endswith :: "string \<Rightarrow> string \<Rightarrow> bool" where
  "endswith s suf = (length suf \<le> length s \<and> drop (length s - length suf) s = suf)"

definition lower_char :: "char \<Rightarrow> char" where
  "lower_char c = (let n = of_char c :: nat in if 65 \<le> n \<and> n \<le> 90 then char_of (n + 32) else c)"

definition lower :: "string \<Rightarrow> string" where
  \<comment> \<open>\<^verbatim>\<open>s.lower()\<close> on ASCII\<close>
  "lower s = map lower_char s"

definition truthy :: "string option \<Rightarrow> bool" where
  \<comment> \<open>Truth value of an optional string: \<^verbatim>\<open>None\<close> and \<^verbatim>\<open>""\<close> are false.\<close>
  "truthy v = (case v of None \<Rightarrow> False | Some s \<Rightarrow> s \<noteq> [])"

definition or_default :: "string option \<Rightarrow> string \<Rightarrow> string" where
  \<comment> \<open>\<^verbatim>\<open>v or d\<close> for an optional string \<open>v\<close>\<close>
  "or_default v d = (case v of None \<Rightarrow> d | Some s \<Rightarrow> if s = [] then d else s)"

definition is_digit :: "char \<Rightarrow> bool" where
  "is_digit c = (let n = of_char c :: nat in 48 \<le> n \<and> n \<le> 57)"

definition digit_val :: "char \<Rightarrow> nat" where
  "digit_val c = of_char c - 48"

text \<open>
  Exceptions are values. Only the classes that the script can meet are listed; the
  argument of \<open>RuntimeError\<close> names the raise statement.
\<close>

datatype exn =
    ValueError
  | KeyError string
  | AttributeError
  | RuntimeError string
  | RequestException
  | HTTPError int
  | JSONDecodeError

text \<open>
  \<^verbatim>\<open>int(s)\<close> for a string in base 10: optional white space, an optional sign, then decimal
  digits in which single underscores may separate digits, then optional white space.
  Anything else raises \<^verbatim>\<open>ValueError\<close>. The white space that \<^verbatim>\<open>int\<close> skips in an ASCII
  string is that of C (TAB, LF, VT, FF, CR and the blank); the separators FS, GS, RS and
  US, which \<^verbatim>\<open>str.strip\<close> removes, make \<^verbatim>\<open>int\<close> fail. (The interpreter's limit on the
  number of digits, which also raises \<^verbatim>\<open>ValueError\<close>, is not modelled.)
\<close>

definition is_int_space :: "char \<Rightarrow> bool" where
  "is_int_space c = (let n = of_char c :: nat in (9 \<le> n \<and> n \<le> 13) \<or> n = 32)"

definition int_strip :: "string \<Rightarrow> string" where
  \<comment> \<open>What is left when \<^verbatim>\<open>int\<close> has skipped the white space at both ends.\<close>
  "int_strip s = rev (dropWhile is_int_space (rev (dropWhile is_int_space s)))"

fun int_digits :: "string \<Rightarrow> bool \<Rightarrow> nat \<Rightarrow> nat option" where
  \<comment> \<open>The flag says that a digit must come next (at the start and after an underscore).\<close>
  "int_digits [] need acc = (if need then None else Some acc)"
| "int_digits (c # cs) need acc =
     (if is_digit c then int_digits cs False (10 * acc + digit_val c)
      else if c = CHR ''_'' \<and> \<not> need then int_digits cs True acc
      else None)"

definition py_int :: "string \<Rightarrow> exn + int" where
  "py_int s =
     (let t = int_strip s;
          (neg, body) = (case t of
                           c # cs \<Rightarrow> if c = CHR ''-'' then (True, cs)
                                     else if c = CHR ''+'' then (False, cs)
                                     else (False, t)
                         | [] \<Rightarrow> (False, t))
      in case int_digits body True 0 of
           None \<Rightarrow> Inl ValueError
         | Some n \<Rightarrow> Inr (if neg then - int n else int n))"

fun str_nat :: "nat \<Rightarrow> string" where
  "str_nat n = (if n < 10 then [char_of (48 + n)] else str_nat (n div 10) @ [char_of (48 + n mod 10)])"

declare str_nat.simps [simp del]

definition py_str :: "int \<Rightarrow> string" where
  \<comment> \<open>\<^verbatim>\<open>str(i)\<close> and \<^verbatim>\<open>f"{i}"\<close> for an integer\<close>
  "py_str i = (if i < 0 then CHR ''-'' # str_nat (nat (- i)) else str_nat (nat i))"

definition zfill :: "nat \<Rightarrow> int \<Rightarrow> string" where
  \<comment> \<open>\<^verbatim>\<open>f"{i:0wd}"\<close> for a non-negative \<open>i\<close>; the script formats only such values.\<close>
  "zfill w i = (let s = py_str i in replicate (w - length s) CHR ''0'' @ s)"

section \<open>The parsed page\<close>

text \<open>
  The tree that the HTML parser hands to the script: an element has a name, the tokens of
  its \<^verbatim>\<open>class\<close> attribute (\<open>None\<close> when the attribute is absent), its other attributes
  and its children; the other kind of node is a piece of text. The attribute list stands
  for a dictionary and is read with \<^const>\<open>map_of\<close>. Comments and the contents of
  \<^verbatim>\<open>script\<close> and \<^verbatim>\<open>style\<close> elements, which neither the searches nor \<^verbatim>\<open>get_text\<close>
  look at, are not nodes of the tree.
\<close>

datatype node =
    Tag (tag_name: string) (classes: "string list option") (attrs: "(string \<times> string) list")
        (children: "node list")
  | Text string

fun descendants :: "node \<Rightarrow> node list"
  and descendants_list :: "node list \<Rightarrow> node list" where
  "descendants (Tag n c a ch) = descendants_list ch"
| "descendants (Text s) = []"
| "descendants_list [] = []"
| "descendants_list (x # xs) = x # descendants x @ descendants_list xs"

definition join_blank :: "string list \<Rightarrow> string" where
  \<comment> \<open>\<^verbatim>\<open>" ".join(xs)\<close>\<close>
  "join_blank xs = (case xs of [] \<Rightarrow> [] | y # ys \<Rightarrow> y @ concat (map (\<lambda>z. CHR '' '' # z) ys))"

definition has_class :: "string \<Rightarrow> node \<Rightarrow> bool" where
  \<comment> \<open>The \<^verbatim>\<open>class_=\<close> filter: some token of the attribute is the wanted string, or the
      tokens joined by blanks are.\<close>
  "has_class cls x =
     (case x of
        Text s \<Rightarrow> False
      | Tag n c a ch \<Rightarrow>
          (case c of None \<Rightarrow> False | Some toks \<Rightarrow> cls \<in> set toks \<or> join_blank toks = cls))"

definition is_tag :: "string \<Rightarrow> node \<Rightarrow> bool" where
  "is_tag nm x = (case x of Text s \<Rightarrow> False | Tag n c a ch \<Rightarrow> n = nm)"

definition get_attr :: "node \<Rightarrow> string \<Rightarrow> string option" where
  \<comment> \<open>\<^verbatim>\<open>tag.get(key)\<close>\<close>
  "get_attr x k = (case x of Text s \<Rightarrow> None | Tag n c a ch \<Rightarrow> map_of a k)"

definition find_all :: "(node \<Rightarrow> bool) \<Rightarrow> node list \<Rightarrow> node list" where
  \<comment> \<open>\<^verbatim>\<open>soup.find_all(...)\<close>: every matching node of the document, in document order\<close>
  "find_all p doc = filter p (descendants_list doc)"

definition find_first :: "(node \<Rightarrow> bool) \<Rightarrow> node \<Rightarrow> node option" where
  \<comment> \<open>\<^verbatim>\<open>tag.find(...)\<close>: the first matching descendant, or \<^verbatim>\<open>None\<close>\<close>
  "find_first p x = List.find p (descendants x)"

fun strings_of :: "node \<Rightarrow> string list"
  and strings_of_list :: "node list \<Rightarrow> string list" where
  "strings_of (Tag n c a ch) = strings_of_list ch"
| "strings_of (Text s) = [s]"
| "strings_of_list [] = []"
| "strings_of_list (x # xs) = strings_of x @ strings_of_list xs"

definition get_text :: "node \<Rightarrow> string" where
  \<comment> \<open>\<^verbatim>\<open>tag.get_text(strip=True)\<close>: the stripped, non-empty strings below the tag, joined\<close>
  "get_text x = concat (filter (\<lambda>s. s \<noteq> []) (map strip (strings_of x)))"

section \<open>Extraction: \<^verbatim>\<open>fetch_trending\<close>\<close>

record repo =
  repo_name :: string
  repo_url :: string
  repo_description :: string
  repo_language :: string
  repo_stars :: "int option"
  repo_stars_today :: "int option"

definition parse_count :: "string \<Rightarrow> int option" where
  \<comment> \<open>\<^verbatim>\<open>try: v = int(s)\<close> / \<^verbatim>\<open>except ValueError: v = None\<close>\<close>
  "parse_count s = (case py_int s of Inl e \<Rightarrow> None | Inr n \<Rightarrow> Some n)"

definition title_href :: "node \<Rightarrow> string option" where
  \<comment> \<open>The two \<^verbatim>\<open>continue\<close> tests: the first \<^verbatim>\<open>h2\<close>, its first \<^verbatim>\<open>a\<close>, and a non-empty
      \<^verbatim>\<open>href\<close> on it. The result is that \<^verbatim>\<open>href\<close>.\<close>
  "title_href item =
     (case find_first (is_tag ''h2'') item of
        None \<Rightarrow> None
      | Some h2 \<Rightarrow>
          (case find_first (is_tag ''a'') h2 of
             None \<Rightarrow> None
           | Some a \<Rightarrow>
               (case get_attr a ''href'' of
                  None \<Rightarrow> None
                | Some h \<Rightarrow> if h = [] then None else Some h)))"

definition extract_description :: "node \<Rightarrow> string" where
  "extract_description item =
     (let desc_tag = (case find_first (\<lambda>x. is_tag ''p'' x \<and> has_class ''col-9'' x) item of
                        None \<Rightarrow> find_first (is_tag ''p'') item
                      | Some t \<Rightarrow> Some t)
      in case desc_tag of None \<Rightarrow> [] | Some t \<Rightarrow> get_text t)"

definition extract_language :: "node \<Rightarrow> string" where
  "extract_language item =
     (case find_first (\<lambda>x. is_tag ''span'' x \<and> get_attr x ''itemprop'' = Some ''programmingLanguage'') item of
        None \<Rightarrow> []
      | Some t \<Rightarrow> get_text t)"

definition star_tag :: "node \<Rightarrow> node option" where
  "star_tag item =
     find_first (\<lambda>x. is_tag ''a'' x \<and>
        (case get_attr x ''href'' of None \<Rightarrow> False
         | Some h \<Rightarrow> h \<noteq> [] \<and> endswith h ''/stargazers'')) item"

definition stars_text :: "node \<Rightarrow> string" where
  \<comment> \<open>\<^verbatim>\<open>star_tag.get_text(strip=True).replace(",", "")\<close>\<close>
  "stars_text t = remove_commas (get_text t)"

definition extract_stars :: "node \<Rightarrow> int option" where
  "extract_stars item =
     (case star_tag item of None \<Rightarrow> None | Some t \<Rightarrow> parse_count (stars_text t))"

definition stars_today_tag :: "node \<Rightarrow> node option" where
  "stars_today_tag item =
     find_first (\<lambda>x. is_tag ''span'' x \<and> has_class ''d-inline-block float-sm-right'' x) item"

definition num_part :: "node \<Rightarrow> string" where
  \<comment> \<open>\<^verbatim>\<open>text.split(" ")[0].replace(",", "")\<close>\<close>
  "num_part t = remove_commas (first_part (get_text t))"

definition extract_stars_today :: "node \<Rightarrow> int option" where
  "extract_stars_today item =
     (case stars_today_tag item of None \<Rightarrow> None | Some t \<Rightarrow> parse_count (num_part t))"

definition extract_item :: "node \<Rightarrow> repo option" where
  \<comment> \<open>One turn of the loop; \<open>None\<close> is \<^verbatim>\<open>continue\<close>.\<close>
  "extract_item item =
     (case title_href item of
        None \<Rightarrow> None
      | Some h \<Rightarrow>
          (let repo_path = strip h
           in Some \<lparr> repo_name = lstrip_slash repo_path,
                     repo_url = ''https://github.com'' @ repo_path,
                     repo_description = extract_description item,
                     repo_language = extract_language item,
                     repo_stars = extract_stars item,
                     repo_stars_today = extract_stars_today item \<rparr>))"

definition repo_items :: "node list \<Rightarrow> node list" where
  \<comment> \<open>\<^verbatim>\<open>soup.find_all("article", class_="Box-row")\<close>\<close>
  "repo_items doc = find_all (\<lambda>x. is_tag ''article'' x \<and> has_class ''Box-row'' x) doc"

definition extract_repos :: "node list \<Rightarrow> repo list" where
  "extract_repos doc = List.map_filter extract_item (repo_items doc)"

section \<open>Calendar arithmetic of the \<^verbatim>\<open>datetime\<close> module\<close>

text \<open>
  The clock is an input: a reading is the UTC calendar date that \<^verbatim>\<open>datetime.now\<close> returns.
  The functions below are those of the standard library's reference implementation;
  day 1 is 1 January of year 1, a Monday.
\<close>

record date =
  year :: int
  month :: int
  day :: int

definition is_leap :: "int \<Rightarrow> bool" where
  "is_leap y = (y mod 4 = 0 \<and> (y mod 100 \<noteq> 0 \<or> y mod 400 = 0))"

definition days_before_year :: "int \<Rightarrow> int" where
  "days_before_year y = (let z = y - 1 in z * 365 + z div 4 - z div 100 + z div 400)"

definition days_in_month :: "int \<Rightarrow> int \<Rightarrow> int" where
  "days_in_month y m =
     (if m = 2 \<and> is_leap y then 29
      else if m = 2 then 28
      else if m = 4 \<or> m = 6 \<or> m = 9 \<or> m = 11 then 30
      else 31)"

definition days_before_month :: "int \<Rightarrow> int \<Rightarrow> int" where
  "days_before_month y m =
     (if m = 1 then 0 else if m = 2 then 31 else if m = 3 then 59 else if m = 4 then 90
      else if m = 5 then 120 else if m = 6 then 151 else if m = 7 then 181
      else if m = 8 then 212 else if m = 9 then 243 else if m = 10 then 273
      else if m = 11 then 304 else 334)
     + (if m > 2 \<and> is_leap y then 1 else 0)"

definition ymd2ord :: "int \<Rightarrow> int \<Rightarrow> int \<Rightarrow> int" where
  "ymd2ord y m d = days_before_year y + days_before_month y m + d"

definition toordinal :: "date \<Rightarrow> int" where
  "toordinal dt = ymd2ord (year dt) (month dt) (day dt)"

definition valid_date :: "date \<Rightarrow> bool" where
  \<comment> \<open>The dates that a \<^verbatim>\<open>datetime\<close> object can hold.\<close>
  "valid_date dt =
     (1 \<le> year dt \<and> year dt \<le> 9999 \<and> 1 \<le> month dt \<and> month dt \<le> 12 \<and>
      1 \<le> day dt \<and> day dt \<le> days_in_month (year dt) (month dt))"

definition isoweek1monday :: "int \<Rightarrow> int" where
  "isoweek1monday y =
     (let firstday = ymd2ord y 1 1;
          firstweekday = (firstday + 6) mod 7;
          week1monday = firstday - firstweekday
      in if firstweekday > 3 then week1monday + 7 else week1monday)"

definition isocalendar :: "date \<Rightarrow> int \<times> int \<times> int" where
  "isocalendar dt =
     (let y = year dt;
          week1monday = isoweek1monday y;
          today = toordinal dt;
          week = (today - week1monday) div 7;
          wd = (today - week1monday) mod 7
      in if week < 0 then
           (let week1monday' = isoweek1monday (y - 1)
            in (y - 1, (today - week1monday') div 7 + 1, (today - week1monday') mod 7 + 1))
         else if week \<ge> 52 \<and> today \<ge> isoweek1monday (y + 1) then (y + 1, 1, wd + 1)
         else (y, week + 1, wd + 1))"

definition strftime_Y :: "date \<Rightarrow> string" where
  \<comment> \<open>\<^verbatim>\<open>%Y\<close>: the year with century. Whether a year before 1000 is padded to four digits
      is left to the C library; the properties below are about the years from 1000 on.\<close>
  "strftime_Y dt = zfill 4 (year dt)"

definition strftime_Y_m :: "date \<Rightarrow> string" where
  \<comment> \<open>\<^verbatim>\<open>now.strftime("%Y-%m")\<close>\<close>
  "strftime_Y_m dt = strftime_Y dt @ ''-'' @ zfill 2 (month dt)"

definition strftime_Y_m_d :: "date \<Rightarrow> string" where
  \<comment> \<open>\<^verbatim>\<open>now.strftime("%Y-%m-%d")\<close>\<close>
  "strftime_Y_m_d dt = strftime_Y dt @ ''-'' @ zfill 2 (month dt) @ ''-'' @ zfill 2 (day dt)"

section \<open>Source tag and table rows\<close>

definition build_source_tag :: "string \<Rightarrow> string option \<Rightarrow> date \<Rightarrow> string" where
  \<comment> \<open>The last argument is the reading of the clock.\<close>
  "build_source_tag since language now =
     (let lang_key = lower (or_default language ''all'')
      in if since = ''weekly'' then
           (case isocalendar now of
              (y, week, _) \<Rightarrow>
                ''github-trending:weekly:'' @ py_str y @ ''-W'' @ zfill 2 week @ '':'' @ lang_key)
         else if since = ''monthly'' then
           ''github-trending:monthly:'' @ strftime_Y_m now @ '':'' @ lang_key
         else
           ''github-trending:daily:'' @ strftime_Y_m_d now @ '':'' @ lang_key)"

definition current_date_ms :: "date \<Rightarrow> int" where
  \<comment> \<open>Midnight UTC of the day read from the clock, in milliseconds since 1970-01-01.\<close>
  "current_date_ms today = (toordinal today - ymd2ord 1970 1 1) * 86400 * 1000"

text \<open>JSON values: what the script sends as payloads and reads from response bodies.\<close>

datatype json =
    JNull
  | JBool bool
  | JInt int
  | JFloat rat
  | JStr string
  | JArr "json list"
  | JObj "(string \<times> json) list"

definition slice_to :: "int \<Rightarrow> 'a list \<Rightarrow> 'a list" where
  \<comment> \<open>\<^verbatim>\<open>xs[:k]\<close>: a negative \<open>k\<close> counts from the end.\<close>
  "slice_to k xs = (if k < 0 then take (length xs - nat (- k)) xs else take (nat k) xs)"

definition enumerate1 :: "'a list \<Rightarrow> (int \<times> 'a) list" where
  \<comment> \<open>\<^verbatim>\<open>enumerate(xs, start=1)\<close>\<close>
  "enumerate1 xs = zip (map (\<lambda>i. int i + 1) [0..<length xs]) xs"

definition or_else :: "string \<Rightarrow> string \<Rightarrow> string" where
  \<comment> \<open>\<^verbatim>\<open>s or d\<close> for strings\<close>
  "or_else s d = (if s = [] then d else s)"

definition owner_of :: "string \<Rightarrow> string" where
  "owner_of full_name =
     (if CHR ''/'' \<in> set full_name then takeWhile (\<lambda>c. c \<noteq> CHR ''/'') full_name else full_name)"

definition bitable_row :: "int \<Rightarrow> string \<Rightarrow> int \<Rightarrow> repo \<Rightarrow> json" where
  "bitable_row date_ms source idx r =
     (let full_name = repo_name r;
          owner = owner_of full_name;
          stars_val = (case repo_stars r of None \<Rightarrow> 0 | Some n \<Rightarrow> n);
          today_val = (case repo_stars_today r of None \<Rightarrow> 0 | Some n \<Rightarrow> n)
      in JObj [(''fields'', JObj
           [(''Rank'', JInt idx),
            (''Repo'', JStr full_name),
            (''Owner'', JStr owner),
            (''SpokenLanguage'', JStr ''all''),
            (''Language'', JStr (or_else (repo_language r) [])),
            (''Stars'', JInt stars_val),
            (''TodayStars'', JInt today_val),
            (''Description'', JStr (or_else (repo_description r) [])),
            (''URL'', JObj [(''link'', JStr (repo_url r)), (''text'', JStr full_name)]),
            (''Date'', JInt date_ms),
            (''Source'', JStr source)])])"

definition build_bitable_records ::
  "repo list \<Rightarrow> string option \<Rightarrow> string \<Rightarrow> int \<Rightarrow> date \<Rightarrow> date \<Rightarrow> json list" where
  \<comment> \<open>The two dates are the two readings of the clock, in the order the code takes them.\<close>
  "build_bitable_records repos language since limit today now =
     (let date_ms = current_date_ms today;
          source = build_source_tag since language now
      in map (\<lambda>(idx, r). bitable_row date_ms source idx r) (enumerate1 (slice_to limit repos)))"

section \<open>The card\<close>

definition chart_sign :: string where
  "chart_sign = [char_of (0xF0::nat), char_of (0x9F::nat), char_of (0x93::nat), char_of (0x88::nat)]"

definition middle_dot :: string where
  "middle_dot = [char_of (0xC2::nat), char_of (0xB7::nat)]"

definition star_sign :: string where
  "star_sign = [char_of (0xE2::nat), char_of (0xAD::nat), char_of (0x90::nat)]"

definition lens_sign :: string where
  "lens_sign = [char_of (0xF0::nat), char_of (0x9F::nat), char_of (0x94::nat), char_of (0x8D::nat)]"

definition newline :: string where
  "newline = [char_of (10::nat)]"

definition join_with :: "string \<Rightarrow> string list \<Rightarrow> string" where
  \<comment> \<open>\<^verbatim>\<open>sep.join(xs)\<close>\<close>
  "join_with sep xs = (case xs of [] \<Rightarrow> [] | y # ys \<Rightarrow> y @ concat (map (\<lambda>z. sep @ z) ys))"

definition stars_str :: "repo \<Rightarrow> string" where
  "stars_str r =
     (let stars_part =
            (case repo_stars r of None \<Rightarrow> [] | Some n \<Rightarrow> [star_sign @ '' '' @ py_str n]) @
            (case repo_stars_today r of None \<Rightarrow> [] | Some n \<Rightarrow> [''+'' @ py_str n @ '' today''])
      in if stars_part = [] then ''stars: N/A''
         else join_with ('' '' @ middle_dot @ '' '') stars_part)"

definition card_entry :: "(string \<Rightarrow> string) \<Rightarrow> int \<Rightarrow> repo \<Rightarrow> json" where
  \<comment> \<open>The first argument is \<^verbatim>\<open>textwrap.shorten(_, width=120, placeholder=...)\<close>, a function of
      the standard library.\<close>
  "card_entry shorten idx r =
     (let lang = or_else (repo_language r) ''Unknown'';
          desc = or_else (repo_description r) ''(no description)'';
          short_desc = shorten desc
      in JObj [(''tag'', JStr ''markdown''),
               (''content'', JStr (py_str idx @ ''. **'' @ repo_name r @ ''**  '' @ newline @
                                   stars_str r @ '' '' @ middle_dot @ '' '' @ lang @ ''  '' @ newline @
                                   short_desc @ ''  '' @ newline @
                                   repo_url r))])"

definition since_label :: "string \<Rightarrow> string" where
  "since_label since =
     (if since = ''daily'' then ''Daily''
      else if since = ''weekly'' then ''Weekly''
      else if since = ''monthly'' then ''Monthly''
      else since)"

definition card_head :: "string option \<Rightarrow> string \<Rightarrow> int \<Rightarrow> json list" where
  "card_head language since limit =
     [JObj [(''tag'', JStr ''markdown''),
            (''content'', JStr (''**Language**: '' @ or_default language ''All Languages''
                                @ ''  '' @ newline @
                                ''**Period**: '' @ since_label since @ ''  '' @ newline @
                                ''**Source**: https://github.com/trending''))],
      JObj [(''tag'', JStr ''hr'')],
      JObj [(''tag'', JStr ''markdown''),
            (''content'', JStr (''**Top '' @ py_str limit @ '' Repositories**''))]]"

definition card_entries :: "(string \<Rightarrow> string) \<Rightarrow> repo list \<Rightarrow> int \<Rightarrow> json list" where
  \<comment> \<open>The elements that the loop appends, one for each record.\<close>
  "card_entries shorten repos limit =
     map (\<lambda>(idx, r). card_entry shorten idx r) (enumerate1 (slice_to limit repos))"

definition card_foot :: "json list" where
  "card_foot =
     [JObj [(''tag'', JStr ''hr'')],
      JObj [(''tag'', JStr ''button''),
            (''text'', JObj [(''tag'', JStr ''plain_text''),
                             (''content'', JStr (lens_sign @ '' Open GitHub Trending''))]),
            (''type'', JStr ''primary''),
            (''url'', JStr ''https://github.com/trending'')]]"

definition card_elements :: "(string \<Rightarrow> string) \<Rightarrow> repo list \<Rightarrow> string option \<Rightarrow> string \<Rightarrow> int \<Rightarrow> json list" where
  "card_elements shorten repos language since limit =
     card_head language since limit @ card_entries shorten repos limit @ card_foot"

definition build_feishu_card :: "(string \<Rightarrow> string) \<Rightarrow> repo list \<Rightarrow> string option \<Rightarrow> string \<Rightarrow> int \<Rightarrow> json" where
  "build_feishu_card shorten repos language since limit =
     JObj [(''schema'', JStr ''2.0''),
           (''header'', JObj [(''title'', JObj [(''tag'', JStr ''plain_text''),
                                               (''content'', JStr (chart_sign @ '' GitHub Trending '' @ middle_dot
                                                                   @ '' '' @ since_label since))]),
                             (''template'', JStr ''blue'')]),
           (''body'', JObj [(''elements'', JArr (card_elements shorten repos language since limit))])]"

section \<open>The network and the four requests\<close>

text \<open>
  A request either fails in transport or returns a status and a body. A run sends each of
  the four requests at most once, so the network is the four replies. A JSON body is given
  as decoded, \<open>None\<close> when it is not JSON; the body of the listing page is given as parsed.
\<close>

datatype 'b reply = Transport_error | Reply int 'b

record network =
  trending_reply :: "node list reply"
  token_reply :: "json option reply"
  batch_reply :: "json option reply"
  webhook_reply :: "json option reply"

record config =
  FEISHU_WEBHOOK_URL :: "string option"
  FEISHU_APP_ID :: "string option"
  FEISHU_APP_SECRET :: "string option"
  BITABLE_APP_TOKEN :: "string option"
  BITABLE_TABLE_ID :: "string option"

datatype message =
    No_webhook_url
  | Fetch_failed exn
  | No_repositories
  | Bitable_skipped
  | Bitable_failed exn
  | Wrote_records nat
  | Webhook_http_error exn
  | Webhook_response_text
  | Feishu_nonzero_code
  | Send_failed exn
  | Done
  | Usage_message
  | Help_message

datatype event =
    Http_get string
  | Http_post string "json option" json
  | Print_out message
  | Print_err message

text \<open>
  \<open>Http_post url token payload\<close>: the optional value is the bearer token of the
  \<^verbatim>\<open>Authorization\<close> header. A function that can raise returns the events it caused and
  either the exception or its value.
\<close>

definition raise_for_status :: "int \<Rightarrow> exn option" where
  "raise_for_status status = (if 400 \<le> status \<and> status < 600 then Some (HTTPError status) else None)"

definition code_not_zero :: "json option \<Rightarrow> bool" where
  \<comment> \<open>\<^verbatim>\<open>data.get("code") != 0\<close>, on the value found under the key, if any\<close>
  "code_not_zero v =
     (case v of
        None \<Rightarrow> True
      | Some (JInt n) \<Rightarrow> n \<noteq> 0
      | Some (JFloat r) \<Rightarrow> r \<noteq> 0
      | Some (JBool b) \<Rightarrow> b
      | Some _ \<Rightarrow> True)"

definition check_code :: "string \<Rightarrow> json option \<Rightarrow> exn + (string \<times> json) list" where
  \<comment> \<open>\<^verbatim>\<open>data = resp.json()\<close> and the test of \<^verbatim>\<open>data.get("code")\<close>; the result is the dictionary.\<close>
  "check_code who body =
     (case body of
        None \<Rightarrow> Inl JSONDecodeError
      | Some (JObj d) \<Rightarrow> if code_not_zero (map_of d ''code'') then Inl (RuntimeError who) else Inr d
      | Some _ \<Rightarrow> Inl AttributeError)"

definition build_trending_url :: "string option \<Rightarrow> string \<Rightarrow> string" where
  "build_trending_url language since =
     (let url = (if truthy language then ''https://github.com/trending'' @ ''/'' @ or_default language []
                 else ''https://github.com/trending'')
      in url @ ''?since='' @ since)"

definition fetch_trending :: "string option \<Rightarrow> string \<Rightarrow> network \<Rightarrow> event list \<times> (exn + repo list)" where
  "fetch_trending language since net =
     (let ev = [Http_get (build_trending_url language since)]
      in case trending_reply net of
           Transport_error \<Rightarrow> (ev, Inl RequestException)
         | Reply status doc \<Rightarrow>
             (case raise_for_status status of
                Some e \<Rightarrow> (ev, Inl e)
              | None \<Rightarrow> (ev, Inr (extract_repos doc))))"

definition token_url :: string where
  "token_url = ''https://open.feishu.cn/open-apis/auth/v3/tenant_access_token/internal''"

definition get_tenant_access_token :: "config \<Rightarrow> network \<Rightarrow> event list \<times> (exn + json)" where
  "get_tenant_access_token cfg net =
     (if \<not> truthy (FEISHU_APP_ID cfg) \<or> \<not> truthy (FEISHU_APP_SECRET cfg) then
        ([], Inl (RuntimeError ''FEISHU_APP_ID / FEISHU_APP_SECRET not set''))
      else
        (let payload = JObj [(''app_id'', JStr (or_default (FEISHU_APP_ID cfg) [])),
                             (''app_secret'', JStr (or_default (FEISHU_APP_SECRET cfg) []))];
             ev = [Http_post token_url None payload]
         in case token_reply net of
              Transport_error \<Rightarrow> (ev, Inl RequestException)
            | Reply status body \<Rightarrow>
                (case raise_for_status status of
                   Some e \<Rightarrow> (ev, Inl e)
                 | None \<Rightarrow>
                     (case check_code ''get_tenant_access_token failed'' body of
                        Inl e \<Rightarrow> (ev, Inl e)
                      | Inr d \<Rightarrow>
                          (case map_of d ''tenant_access_token'' of
                             None \<Rightarrow> (ev, Inl (KeyError ''tenant_access_token''))
                           | Some tok \<Rightarrow> (ev, Inr tok))))))"

definition batch_create_url :: "config \<Rightarrow> string" where
  "batch_create_url cfg =
     ''https://open.feishu.cn/open-apis/bitable/v1/apps/'' @ or_default (BITABLE_APP_TOKEN cfg) []
     @ ''/tables/'' @ or_default (BITABLE_TABLE_ID cfg) [] @ ''/records/batch_create''"

definition write_records_to_bitable :: "config \<Rightarrow> network \<Rightarrow> json list \<Rightarrow> event list \<times> (exn + unit)" where
  "write_records_to_bitable cfg net records =
     (if records = [] then ([], Inr ())
      else if \<not> (truthy (BITABLE_APP_TOKEN cfg) \<and> truthy (BITABLE_TABLE_ID cfg)) then
        ([], Inl (RuntimeError ''BITABLE app_token / table_id not set''))
      else
        (case get_tenant_access_token cfg net of
           (ev1, Inl e) \<Rightarrow> (ev1, Inl e)
         | (ev1, Inr tok) \<Rightarrow>
             (let ev = ev1 @ [Http_post (batch_create_url cfg) (Some tok) (JObj [(''records'', JArr records)])]
              in case batch_reply net of
                   Transport_error \<Rightarrow> (ev, Inl RequestException)
                 | Reply status body \<Rightarrow>
                     (case raise_for_status status of
                        Some e \<Rightarrow> (ev, Inl e)
                      | None \<Rightarrow>
                          (case check_code ''Bitable batch_create failed'' body of
                             Inl e \<Rightarrow> (ev, Inl e)
                           | Inr d \<Rightarrow> (ev @ [Print_out (Wrote_records (length records))], Inr ()))))))"

definition send_card_to_feishu :: "string \<Rightarrow> json \<Rightarrow> network \<Rightarrow> event list \<times> (exn + unit)" where
  "send_card_to_feishu webhook_url the_card net =
     (let ev = [Http_post webhook_url None (JObj [(''msg_type'', JStr ''interactive''), (''card'', the_card)])]
      in case webhook_reply net of
           Transport_error \<Rightarrow> (ev, Inl RequestException)
         | Reply status body \<Rightarrow>
             (case raise_for_status status of
                Some e \<Rightarrow> (ev @ [Print_err (Webhook_http_error e), Print_err Webhook_response_text], Inl e)
              | None \<Rightarrow>
                  (case check_code ''Feishu error'' body of
                     Inl (RuntimeError w) \<Rightarrow> (ev @ [Print_err Feishu_nonzero_code], Inl (RuntimeError w))
                   | Inl e \<Rightarrow> (ev, Inl e)
                   | Inr d \<Rightarrow> (ev, Inr ()))))"

section \<open>The entry point\<close>

record args =
  arg_language :: "string option"
  arg_since :: string
  arg_limit :: int
  arg_webhook :: "string option"

text \<open>
  \<^verbatim>\<open>parse_args\<close> hands the command line to the argument parser of the standard library.
  The parser rejects the line (an unknown option, a \<^verbatim>\<open>--limit\<close> that is no integer, a
  \<^verbatim>\<open>--since\<close> outside its choices: usage message, exit status 2), or answers a request
  for help (exit status 0), or returns the parsed arguments. Its outcome on the command
  line is an input of the model.
\<close>

datatype parse_result = Usage_error | Help_shown | Parsed args

record clock =
  date_for_rows :: date
  date_for_tag :: date

definition bitable_ready :: "config \<Rightarrow> bool" where
  "bitable_ready cfg =
     (truthy (FEISHU_APP_ID cfg) \<and> truthy (FEISHU_APP_SECRET cfg) \<and>
      truthy (BITABLE_APP_TOKEN cfg) \<and> truthy (BITABLE_TABLE_ID cfg))"

definition webhook_url_of :: "args \<Rightarrow> config \<Rightarrow> string option" where
  \<comment> \<open>\<^verbatim>\<open>args.webhook or os.getenv("FEISHU_WEBHOOK_URL")\<close>\<close>
  "webhook_url_of a cfg = (if truthy (arg_webhook a) then arg_webhook a else FEISHU_WEBHOOK_URL cfg)"

definition table_step :: "args \<Rightarrow> config \<Rightarrow> clock \<Rightarrow> network \<Rightarrow> repo list \<Rightarrow> event list" where
  \<comment> \<open>Step 1 of \<^verbatim>\<open>main\<close>: the table write with its \<^verbatim>\<open>try\<close>/\<^verbatim>\<open>except\<close>.\<close>
  "table_step a cfg clk net repos =
     (if \<not> bitable_ready cfg then [Print_err Bitable_skipped]
      else
        (let records = build_bitable_records repos (arg_language a) (arg_since a) (arg_limit a)
                         (date_for_rows clk) (date_for_tag clk)
         in case write_records_to_bitable cfg net records of
              (ev, Inl e) \<Rightarrow> ev @ [Print_err (Bitable_failed e)]
            | (ev, Inr u) \<Rightarrow> ev))"

definition main :: "(string \<Rightarrow> string) \<Rightarrow> parse_result \<Rightarrow> config \<Rightarrow> clock \<Rightarrow> network \<Rightarrow> event list \<times> int" where
  \<comment> \<open>The result is what the run did and its exit code.\<close>
  "main shorten parsed cfg clk net =
     (case parsed of
        Usage_error \<Rightarrow> ([Print_err Usage_message], 2)
      | Help_shown \<Rightarrow> ([Print_out Help_message], 0)
      | Parsed a \<Rightarrow>
     (case webhook_url_of a cfg of
        None \<Rightarrow> ([Print_err No_webhook_url], 1)
      | Some webhook_url \<Rightarrow>
          if webhook_url = [] then ([Print_err No_webhook_url], 1)
          else
            (case fetch_trending (arg_language a) (arg_since a) net of
               (ev1, Inl e) \<Rightarrow> (ev1 @ [Print_err (Fetch_failed e)], 1)
             | (ev1, Inr repos) \<Rightarrow>
                 if repos = [] then (ev1 @ [Print_err No_repositories], 0)
                 else
                   (let ev2 = table_step a cfg clk net repos;
                        the_card = build_feishu_card shorten repos (arg_language a) (arg_since a) (arg_limit a)
                    in case send_card_to_feishu webhook_url the_card net of
                         (ev3, Inl e) \<Rightarrow> (ev1 @ ev2 @ ev3 @ [Print_err (Send_failed e)], 1)
                       | (ev3, Inr u) \<Rightarrow> (ev1 @ ev2 @ ev3 @ [Print_out Done], 0)))))"

section \<open>Notions of the specification\<close>

text \<open>
  The predicates and observations in which the properties below are stated. They are
  not part of the script.
\<close>

definition title_missing :: "node \<Rightarrow> bool" where
  \<comment> \<open>A block without title: no \<^verbatim>\<open>h2\<close>, or no anchor in the \<^verbatim>\<open>h2\<close>, or no (non-empty)
      \<^verbatim>\<open>href\<close> on the anchor. The \<^verbatim>\<open>h2\<close> and the anchor are the first ones in document
      order.\<close>
  "title_missing item =
     (case find_first (is_tag ''h2'') item of
        None \<Rightarrow> True
      | Some h2 \<Rightarrow>
          (case find_first (is_tag ''a'') h2 of
             None \<Rightarrow> True
           | Some a \<Rightarrow> \<not> truthy (get_attr a ''href'')))"

definition row_field :: "json \<Rightarrow> string \<Rightarrow> json option" where
  \<comment> \<open>\<^verbatim>\<open>row["fields"].get(k)\<close>\<close>
  "row_field row k =
     (case row of
        JObj kvs \<Rightarrow> (case map_of kvs ''fields'' of Some (JObj fs) \<Rightarrow> map_of fs k | _ \<Rightarrow> None)
      | _ \<Rightarrow> None)"

definition entry_content :: "json \<Rightarrow> string option" where
  \<comment> \<open>The text of a markdown element of the card.\<close>
  "entry_content e =
     (case e of
        JObj kvs \<Rightarrow> (case map_of kvs ''content'' of Some (JStr s) \<Rightarrow> Some s | _ \<Rightarrow> None)
      | _ \<Rightarrow> None)"

definition body_elements :: "json \<Rightarrow> json list" where
  \<comment> \<open>\<^verbatim>\<open>card["body"]["elements"]\<close>\<close>
  "body_elements c =
     (case c of
        JObj kvs \<Rightarrow>
          (case map_of kvs ''body'' of
             Some (JObj b) \<Rightarrow> (case map_of b ''elements'' of Some (JArr es) \<Rightarrow> es | _ \<Rightarrow> [])
           | _ \<Rightarrow> [])
      | _ \<Rightarrow> [])"

definition weekday :: "date \<Rightarrow> int" where
  \<comment> \<open>Monday is 0.\<close>
  "weekday dt = (toordinal dt + 6) mod 7"

definition week_thursday :: "date \<Rightarrow> int" where
  \<comment> \<open>The day number of the Thursday of the week (Monday to Sunday) that holds the date.\<close>
  "week_thursday dt = toordinal dt - weekday dt + 3"

definition is_iso_week :: "date \<Rightarrow> int \<Rightarrow> int \<Rightarrow> bool" where
  \<comment> \<open>ISO 8601: a week belongs to the year that holds its Thursday, and the weeks of a year
      are numbered from 1 in the order of their Thursdays.\<close>
  "is_iso_week dt y w =
     (ymd2ord y 1 1 \<le> week_thursday dt \<and> week_thursday dt < ymd2ord (y + 1) 1 1 \<and>
      w = (week_thursday dt - ymd2ord y 1 1) div 7 + 1)"

definition secrets_unset :: "config \<Rightarrow> bool" where
  "secrets_unset cfg = (\<not> truthy (FEISHU_APP_ID cfg) \<or> \<not> truthy (FEISHU_APP_SECRET cfg))"

definition transport_fails :: "'b reply \<Rightarrow> bool" where
  \<comment> \<open>No response, or a response with an error status.\<close>
  "transport_fails r = (case r of Transport_error \<Rightarrow> True | Reply st b \<Rightarrow> 400 \<le> st \<and> st < 600)"

definition body_code_nonzero :: "json option reply \<Rightarrow> bool" where
  \<comment> \<open>The body is a JSON object whose \<^verbatim>\<open>code\<close> is not 0 (or is absent).\<close>
  "body_code_nonzero r =
     (case r of Reply st (Some (JObj d)) \<Rightarrow> code_not_zero (map_of d ''code'') | _ \<Rightarrow> False)"

definition body_not_object :: "json option reply \<Rightarrow> bool" where
  \<comment> \<open>The body is not JSON, or is JSON but not an object.\<close>
  "body_not_object r =
     (case r of Reply st (Some (JObj d)) \<Rightarrow> False | Reply st b \<Rightarrow> True | Transport_error \<Rightarrow> False)"

definition token_absent :: "json option reply \<Rightarrow> bool" where
  "token_absent r =
     (case r of Reply st (Some (JObj d)) \<Rightarrow> map_of d ''tenant_access_token'' = None | _ \<Rightarrow> False)"

definition webhook_missing :: "args \<Rightarrow> config \<Rightarrow> bool" where
  \<comment> \<open>Neither the flag nor the environment variable gives a (non-empty) URL.\<close>
  "webhook_missing a cfg = (\<not> truthy (arg_webhook a) \<and> \<not> truthy (FEISHU_WEBHOOK_URL cfg))"

definition fetch_result :: "args \<Rightarrow> network \<Rightarrow> exn + repo list" where
  "fetch_result a net = snd (fetch_trending (arg_language a) (arg_since a) net)"

definition send_result :: "(string \<Rightarrow> string) \<Rightarrow> args \<Rightarrow> config \<Rightarrow> network \<Rightarrow> repo list \<Rightarrow> exn + unit" where
  "send_result shorten a cfg net repos =
     snd (send_card_to_feishu (or_default (webhook_url_of a cfg) [])
            (build_feishu_card shorten repos (arg_language a) (arg_since a) (arg_limit a)) net)"

section \<open>Sample inputs\<close>

definition titled_block :: "string \<Rightarrow> string \<Rightarrow> string \<Rightarrow> node" where
  \<comment> \<open>A block with a title, a total-stars link and a stars-today figure.\<close>
  "titled_block path stars_txt today_txt =
     Tag ''article'' (Some [''Box-row'']) []
       [Tag ''h2'' (Some [''h3'', ''lh-condensed'']) []
          [Tag ''a'' None [(''href'', path)] [Text path]],
        Tag ''p'' (Some [''col-9'', ''color-fg-muted'']) [] [Text '' A sample repository ''],
        Tag ''span'' None [(''itemprop'', ''programmingLanguage'')] [Text ''Python''],
        Tag ''a'' None [(''href'', path @ ''/stargazers'')] [Text stars_txt],
        Tag ''span'' (Some [''d-inline-block'', ''float-sm-right'']) [] [Text today_txt]]"

definition bare_block :: node where
  \<comment> \<open>A block with a title and nothing else.\<close>
  "bare_block =
     Tag ''article'' (Some [''Box-row'']) []
       [Tag ''h2'' None [] [Tag ''a'' None [(''href'', ''/solo/bare'')] [Text ''solo / bare'']]]"

definition untitled_block :: node where
  "untitled_block =
     Tag ''article'' (Some [''Box-row'']) []
       [Tag ''p'' (Some [''col-9'']) [] [Text ''no title here''],
        Tag ''a'' None [(''href'', ''/x/y/stargazers'')] [Text ''7'']]"

definition sample_page :: "node list" where
  "sample_page =
     [Tag ''html'' None []
        [Tag ''body'' None []
           [titled_block ''/octo/alpha'' ''1,234'' ''56 stars today'',
            untitled_block,
            bare_block,
            titled_block ''/octo/beta'' ''n/a'' ''many stars today'']]]"

definition negative_page :: "node list" where
  "negative_page = [titled_block ''/octo/gamma'' ''-5'' ''-1 stars today'']"

definition sample_repos :: "repo list" where
  "sample_repos =
     [\<lparr> repo_name = ''octo/alpha'', repo_url = ''https://github.com/octo/alpha'',
        repo_description = ''A sample repository'', repo_language = ''Python'',
        repo_stars = Some 1234, repo_stars_today = Some 56 \<rparr>,
      \<lparr> repo_name = ''solo/bare'', repo_url = ''https://github.com/solo/bare'',
        repo_description = [], repo_language = [],
        repo_stars = None, repo_stars_today = None \<rparr>,
      \<lparr> repo_name = ''octo/beta'', repo_url = ''https://github.com/octo/beta'',
        repo_description = ''A sample repository'', repo_language = ''Python'',
        repo_stars = None, repo_stars_today = None \<rparr>]"

definition sample_date :: date where
  "sample_date = \<lparr> year = 2021, month = 1, day = 3 \<rparr>"

definition sample_clock :: clock where
  "sample_clock = \<lparr> date_for_rows = sample_date, date_for_tag = sample_date \<rparr>"

definition sample_args :: args where
  "sample_args = \<lparr> arg_language = None, arg_since = ''daily'', arg_limit = 2, arg_webhook = None \<rparr>"

definition sample_config :: config where
  "sample_config =
     \<lparr> FEISHU_WEBHOOK_URL = Some ''https://open.feishu.cn/hook/1'',
       FEISHU_APP_ID = Some ''cli_a1'', FEISHU_APP_SECRET = Some ''s3cret'',
       BITABLE_APP_TOKEN = Some ''bascn'', BITABLE_TABLE_ID = Some ''tbl1'' \<rparr>"

definition ok_body :: "json option" where
  "ok_body = Some (JObj [(''code'', JInt 0), (''msg'', JStr ''ok'')])"

definition sample_network :: network where
  \<comment> \<open>The page loads, the token request is refused in its body, the webhook accepts.\<close>
  "sample_network =
     \<lparr> trending_reply = Reply 200 sample_page,
       token_reply = Reply 200 (Some (JObj [(''code'', JInt 99991663), (''msg'', JStr ''denied'')])),
       batch_reply = Reply 200 ok_body,
       webhook_reply = Reply 200 ok_body \<rparr>"

definition tokenless_network :: network where
  \<comment> \<open>The token endpoint answers with success but sends no token.\<close>
  "tokenless_network = sample_network \<lparr> token_reply := Reply 200 ok_body \<rparr>"

definition no_webhook_config :: config where
  "no_webhook_config = sample_config \<lparr> FEISHU_WEBHOOK_URL := None \<rparr>"

definition offline_network :: network where
  \<comment> \<open>The listing page cannot be reached.\<close>
  "offline_network = sample_network \<lparr> trending_reply := Transport_error \<rparr>"

definition refusing_network :: network where
  \<comment> \<open>The webhook answers with a server error.\<close>
  "refusing_network = sample_network \<lparr> webhook_reply := Reply 500 None \<rparr>"

definition one_figure_repo :: repo where
  \<comment> \<open>A record with a total count and no count for today.\<close>
  "one_figure_repo =
     \<lparr> repo_name = ''octo/delta'', repo_url = ''https://github.com/octo/delta'',
       repo_description = ''Delta'', repo_language = ''Go'',
       repo_stars = Some 7, repo_stars_today = None \<rparr>"

definition granting_network :: network where
  \<comment> \<open>The token endpoint grants a token.\<close>
  "granting_network =
     sample_network \<lparr> token_reply :=
       Reply 200 (Some (JObj [(''code'', JInt 0), (''tenant_access_token'', JStr ''t-abc'')])) \<rparr>"

section \<open>Extraction\<close>

lemma title_href_None_iff: "title_href item = None \<longleftrightarrow> title_missing item"
  by (simp add: title_href_def title_missing_def truthy_def split: option.splits)

lemma extract_item_None_iff: "extract_item item = None \<longleftrightarrow> title_missing item"
  by (simp add: extract_item_def Let_def title_href_None_iff [symmetric] split: option.splits)

lemma length_map_filter: "length (List.map_filter f xs) = length (filter (\<lambda>x. f x \<noteq> None) xs)"
  by (simp add: List.map_filter_def)

lemma find_first_None: "(\<forall>x \<in> set (descendants item). \<not> P x) \<Longrightarrow> find_first P item = None"
  by (simp add: find_first_def find_None_iff)

lemma extract_item_Some:
  assumes "\<not> title_missing item"
  shows "\<exists>h. title_href item = Some h \<and>
           extract_item item = Some \<lparr> repo_name = lstrip_slash (strip h),
                     repo_url = ''https://github.com'' @ strip h,
                     repo_description = extract_description item,
                     repo_language = extract_language item,
                     repo_stars = extract_stars item,
                     repo_stars_today = extract_stars_today item \<rparr>"
proof -
  from assms obtain h where "title_href item = Some h"
    using title_href_None_iff [of item] by (cases "title_href item") auto
  then show ?thesis by (simp add: extract_item_def Let_def)
qed

lemma length_filter_compl: "length (filter P xs) + length (filter (\<lambda>x. \<not> P x) xs) = length xs"
  by (induction xs) auto

lemma set_int_strip: "set (int_strip s) \<subseteq> set s"
proof -
  have "set (int_strip s) \<subseteq> set (dropWhile is_int_space s)"
    unfolding int_strip_def using set_dropWhileD [of _ is_int_space "rev (dropWhile is_int_space s)"] by auto
  moreover have "set (dropWhile is_int_space s) \<subseteq> set s"
    using set_dropWhileD [of _ is_int_space s] by auto
  ultimately show ?thesis by blast
qed

lemma py_int_nonneg:
  assumes "py_int s = Inr n" and "CHR ''-'' \<notin> set s"
  shows "0 \<le> n"
proof -
  have "CHR ''-'' \<notin> set (int_strip s)" using assms(2) set_int_strip [of s] by blast
  then have "\<And>cs. int_strip s \<noteq> CHR ''-'' # cs" by (metis list.set_intros(1))
  with assms(1) show ?thesis
    by (auto simp: py_int_def Let_def split: list.splits option.splits if_splits)
qed

lemma parse_count_Some: "parse_count s = Some n \<longleftrightarrow> py_int s = Inr n"
  by (simp add: parse_count_def split: sum.splits)

lemma parse_count_None: "parse_count s = None \<longleftrightarrow> (\<exists>e. py_int s = Inl e)"
  by (simp add: parse_count_def split: sum.splits)

lemma in_extract_repos: "r \<in> set (extract_repos doc) \<longleftrightarrow> (\<exists>item \<in> set (repo_items doc). extract_item item = Some r)"
proof
  assume "r \<in> set (extract_repos doc)"
  then obtain item where "item \<in> set (repo_items doc)" and "extract_item item \<noteq> None"
    and "r = the (extract_item item)"
    by (auto simp: extract_repos_def List.map_filter_def)
  then show "\<exists>item \<in> set (repo_items doc). extract_item item = Some r" by auto
next
  assume "\<exists>item \<in> set (repo_items doc). extract_item item = Some r"
  then obtain item where i: "item \<in> set (repo_items doc)" and e: "extract_item item = Some r" by blast
  then have "r = the (extract_item item)" and "extract_item item \<noteq> None" by simp_all
  with i show "r \<in> set (extract_repos doc)"
    unfolding extract_repos_def List.map_filter_def by (simp add: image_iff) blast
qed


text \<open>
  C1. The number of extracted records is the number of blocks with a title: a block
  whose title is missing is skipped, and the skipped and the kept blocks together are all
  blocks of the page. A block with a title yields a record also when it has no
  description, no language tag or no star figure; the field is then the empty string or
  \<open>None\<close>. (The title is missing when the first \<^verbatim>\<open>h2\<close> is absent, or has no anchor, or its
  first anchor has no \<^verbatim>\<open>href\<close> or an empty one.)
\<close>

theorem extraction_count:
  "length (extract_repos doc) = length (filter (\<lambda>b. \<not> title_missing b) (repo_items doc))
   \<and> length (extract_repos doc) + length (filter title_missing (repo_items doc)) = length (repo_items doc)
   \<and> (\<forall>b \<in> set (repo_items doc). title_missing b \<longrightarrow> extract_item b = None)
   \<and> (\<forall>b \<in> set (repo_items doc). \<not> title_missing b \<longrightarrow>
        (\<exists>r. extract_item b = Some r
           \<and> ((\<forall>x \<in> set (descendants b). \<not> is_tag ''p'' x) \<longrightarrow> repo_description r = [])
           \<and> ((\<forall>x \<in> set (descendants b). \<not> (is_tag ''span'' x \<and> get_attr x ''itemprop'' = Some ''programmingLanguage''))
                 \<longrightarrow> repo_language r = [])
           \<and> ((\<forall>x \<in> set (descendants b). \<not> (is_tag ''a'' x \<and> (\<exists>h. get_attr x ''href'' = Some h \<and> endswith h ''/stargazers'')))
                 \<longrightarrow> repo_stars r = None)
           \<and> ((\<forall>x \<in> set (descendants b). \<not> (is_tag ''span'' x \<and> has_class ''d-inline-block float-sm-right'' x))
                 \<longrightarrow> repo_stars_today r = None)))"
proof -
  have n: "length (extract_repos doc) = length (filter (\<lambda>b. \<not> title_missing b) (repo_items doc))"
    by (simp add: extract_repos_def length_map_filter extract_item_None_iff)
  have m: "length (extract_repos doc) + length (filter title_missing (repo_items doc)) = length (repo_items doc)"
    using length_filter_compl [of title_missing "repo_items doc"] n by simp
  have skip: "\<forall>b \<in> set (repo_items doc). title_missing b \<longrightarrow> extract_item b = None"
    by (simp add: extract_item_None_iff)
  have keep: "\<exists>r. extract_item b = Some r
           \<and> ((\<forall>x \<in> set (descendants b). \<not> is_tag ''p'' x) \<longrightarrow> repo_description r = [])
           \<and> ((\<forall>x \<in> set (descendants b). \<not> (is_tag ''span'' x \<and> get_attr x ''itemprop'' = Some ''programmingLanguage''))
                 \<longrightarrow> repo_language r = [])
           \<and> ((\<forall>x \<in> set (descendants b). \<not> (is_tag ''a'' x \<and> (\<exists>h. get_attr x ''href'' = Some h \<and> endswith h ''/stargazers'')))
                 \<longrightarrow> repo_stars r = None)
           \<and> ((\<forall>x \<in> set (descendants b). \<not> (is_tag ''span'' x \<and> has_class ''d-inline-block float-sm-right'' x))
                 \<longrightarrow> repo_stars_today r = None)"
    if wf: "\<not> title_missing b" for b
  proof -
    from extract_item_Some [OF wf] obtain h where
      r: "extract_item b = Some \<lparr> repo_name = lstrip_slash (strip h),
                     repo_url = ''https://github.com'' @ strip h,
                     repo_description = extract_description b,
                     repo_language = extract_language b,
                     repo_stars = extract_stars b,
                     repo_stars_today = extract_stars_today b \<rparr>" by blast
    have d: "extract_description b = []" if "\<forall>x \<in> set (descendants b). \<not> is_tag ''p'' x"
      using that by (simp add: extract_description_def find_first_None)
    have l: "extract_language b = []"
      if "\<forall>x \<in> set (descendants b). \<not> (is_tag ''span'' x \<and> get_attr x ''itemprop'' = Some ''programmingLanguage'')"
      using that by (simp add: extract_language_def find_first_None)
    have s: "extract_stars b = None"
      if "\<forall>x \<in> set (descendants b). \<not> (is_tag ''a'' x \<and> (\<exists>h. get_attr x ''href'' = Some h \<and> endswith h ''/stargazers''))"
    proof -
      have "star_tag b = None"
        unfolding star_tag_def
        by (rule find_first_None) (use that in \<open>auto split: option.splits\<close>)
      then show ?thesis by (simp add: extract_stars_def)
    qed
    have t: "extract_stars_today b = None"
      if "\<forall>x \<in> set (descendants b). \<not> (is_tag ''span'' x \<and> has_class ''d-inline-block float-sm-right'' x)"
      using that by (simp add: extract_stars_today_def stars_today_tag_def find_first_None)
    from r d l s t show ?thesis by simp
  qed
  from n m skip keep show ?thesis by blast
qed


theorem extraction_count_witness:
  "length (extract_repos sample_page) = 3
   \<and> length (filter title_missing (repo_items sample_page)) = 1
   \<and> length (repo_items sample_page) = 4
   \<and> extract_item untitled_block = None
   \<and> (\<exists>r. extract_item bare_block = Some r \<and> repo_description r = [] \<and> repo_language r = []
          \<and> repo_stars r = None \<and> repo_stars_today r = None)"
proof -
  have n: "length (filter (\<lambda>b. \<not> title_missing b) (repo_items sample_page)) = 3" by code_simp
  have m: "length (filter title_missing (repo_items sample_page)) = 1" by code_simp
  have u: "untitled_block \<in> set (repo_items sample_page)" "title_missing untitled_block" by code_simp+
  have b: "bare_block \<in> set (repo_items sample_page)" "\<not> title_missing bare_block" by code_simp+
  have p: "\<forall>x \<in> set (descendants bare_block). \<not> is_tag ''p'' x" by code_simp
  have l: "\<forall>x \<in> set (descendants bare_block). \<not> (is_tag ''span'' x \<and> get_attr x ''itemprop'' = Some ''programmingLanguage'')"
    by code_simp
  have s: "\<forall>x \<in> set (descendants bare_block). \<not> (is_tag ''a'' x \<and> (\<exists>h. get_attr x ''href'' = Some h \<and> endswith h ''/stargazers''))"
    by (simp add: bare_block_def get_attr_def is_tag_def endswith_def)
  have t: "\<forall>x \<in> set (descendants bare_block). \<not> (is_tag ''span'' x \<and> has_class ''d-inline-block float-sm-right'' x)"
    by code_simp
  from extraction_count [of sample_page] n m u b p l s t show ?thesis
    by (auto simp del: One_nat_def)
qed

text \<open>
  C4. The page has loaded and the block has a title. Then fetching returns normally with
  the extracted records, the block has its record with the name, address, description and
  language read as usual, and a star text that \<^verbatim>\<open>int\<close> rejects (after the commas are
  removed) leaves that star field \<open>None\<close> while the other star field is read as usual. The
  star text of the stars-today figure is what stands before its first blank.
\<close>

theorem nonnumeric_stars_absent:
  assumes "trending_reply net = Reply status doc" and "raise_for_status status = None"
    and "item \<in> set (repo_items doc)" and "title_href item = Some h"
  shows "snd (fetch_trending language since net) = Inr (extract_repos doc)
       \<and> (\<exists>r \<in> set (extract_repos doc).
             extract_item item = Some r
           \<and> repo_name r = lstrip_slash (strip h)
           \<and> repo_url r = ''https://github.com'' @ strip h
           \<and> repo_description r = extract_description item
           \<and> repo_language r = extract_language item
           \<and> (\<forall>t e. star_tag item = Some t \<and> py_int (stars_text t) = Inl e
                  \<longrightarrow> repo_stars r = None \<and> repo_stars_today r = extract_stars_today item)
           \<and> (\<forall>t e. stars_today_tag item = Some t \<and> py_int (num_part t) = Inl e
                  \<longrightarrow> repo_stars_today r = None \<and> repo_stars r = extract_stars item))"
proof -
  have f: "snd (fetch_trending language since net) = Inr (extract_repos doc)"
    using assms(1,2) by (simp add: fetch_trending_def Let_def)
  define r where "r = \<lparr> repo_name = lstrip_slash (strip h),
                     repo_url = ''https://github.com'' @ strip h,
                     repo_description = extract_description item,
                     repo_language = extract_language item,
                     repo_stars = extract_stars item,
                     repo_stars_today = extract_stars_today item \<rparr>"
  have e: "extract_item item = Some r"
    using assms(4) by (simp add: extract_item_def Let_def r_def)
  with assms(3) have m: "r \<in> set (extract_repos doc)"
    by (auto simp: in_extract_repos)
  have s: "repo_stars r = None" if "star_tag item = Some t" and "py_int (stars_text t) = Inl e" for t e
    using that by (simp add: r_def extract_stars_def parse_count_def)
  have t: "repo_stars_today r = None" if "stars_today_tag item = Some t" and "py_int (num_part t) = Inl e" for t e
    using that by (simp add: r_def extract_stars_today_def parse_count_def)
  have rest: "repo_name r = lstrip_slash (strip h)" "repo_url r = ''https://github.com'' @ strip h"
    "repo_description r = extract_description item" "repo_language r = extract_language item"
    "repo_stars_today r = extract_stars_today item" "repo_stars r = extract_stars item"
    by (simp_all add: r_def)
  from f e m s t rest show ?thesis by blast
qed


theorem nonnumeric_stars_absent_witness:
  "snd (fetch_trending None ''daily'' sample_network) = Inr sample_repos
   \<and> (\<exists>r. extract_item (titled_block ''/octo/beta'' ''n/a'' ''many stars today'') = Some r
          \<and> repo_name r = ''octo/beta'' \<and> repo_stars r = None \<and> repo_stars_today r = None)"
proof -
  let ?item = "titled_block ''/octo/beta'' ''n/a'' ''many stars today''"
  let ?st = "Tag ''a'' None [(''href'', ''/octo/beta/stargazers'')] [Text ''n/a'']"
  let ?tt = "Tag ''span'' (Some [''d-inline-block'', ''float-sm-right'']) [] [Text ''many stars today'']"
  have r: "trending_reply sample_network = Reply 200 sample_page" by (simp add: sample_network_def)
  have ok: "raise_for_status 200 = None" by (simp add: raise_for_status_def)
  have i: "?item \<in> set (repo_items sample_page)" by code_simp
  have h: "title_href ?item = Some ''/octo/beta''" by code_simp
  have s: "star_tag ?item = Some ?st" "py_int (stars_text ?st) = Inl ValueError" by code_simp+
  have t: "stars_today_tag ?item = Some ?tt" "py_int (num_part ?tt) = Inl ValueError" by code_simp+
  have n: "lstrip_slash (strip ''/octo/beta'') = ''octo/beta''" by code_simp
  have e: "extract_repos sample_page = sample_repos" by code_simp
  from nonnumeric_stars_absent [OF r ok i h, of None "''daily''"] s t n e show ?thesis
    by (auto simp del: One_nat_def)
qed

text \<open>
  C9, as stated, fails: \<^verbatim>\<open>int\<close> accepts a sign, so a block whose star texts are
  \<^verbatim>\<open>-5\<close> and \<^verbatim>\<open>-1 stars today\<close> yields the counts -5 and -1.
\<close>

theorem negative_star_count:
  "map repo_stars (extract_repos negative_page) = [Some (- 5)]
   \<and> map repo_stars_today (extract_repos negative_page) = [Some (- 1)]
   \<and> (- 5 :: int) < 0"
  by code_simp

text \<open>
  C9, as amended. A star count that is present is the integer that \<^verbatim>\<open>int\<close> reads from
  the star text of the record's block, and it is non-negative whenever that text holds no
  minus sign.
\<close>

theorem present_stars_value:
  assumes "r \<in> set (extract_repos doc)"
  shows "(\<forall>n. repo_stars r = Some n \<longrightarrow>
            (\<exists>item \<in> set (repo_items doc). \<exists>t. extract_item item = Some r \<and> star_tag item = Some t
               \<and> py_int (stars_text t) = Inr n \<and> (CHR ''-'' \<notin> set (stars_text t) \<longrightarrow> 0 \<le> n)))
       \<and> (\<forall>n. repo_stars_today r = Some n \<longrightarrow>
            (\<exists>item \<in> set (repo_items doc). \<exists>t. extract_item item = Some r \<and> stars_today_tag item = Some t
               \<and> py_int (num_part t) = Inr n \<and> (CHR ''-'' \<notin> set (num_part t) \<longrightarrow> 0 \<le> n)))"
proof -
  from assms obtain item where i: "item \<in> set (repo_items doc)" and e: "extract_item item = Some r"
    by (auto simp: in_extract_repos)
  from e have s: "repo_stars r = extract_stars item" and t: "repo_stars_today r = extract_stars_today item"
    by (auto simp: extract_item_def Let_def split: option.splits)
  have a: "\<exists>t. star_tag item = Some t \<and> py_int (stars_text t) = Inr n \<and> (CHR ''-'' \<notin> set (stars_text t) \<longrightarrow> 0 \<le> n)"
    if "repo_stars r = Some n" for n
  proof -
    from that s obtain t where "star_tag item = Some t" and "parse_count (stars_text t) = Some n"
      by (auto simp: extract_stars_def split: option.splits)
    then show ?thesis using py_int_nonneg by (auto simp: parse_count_Some)
  qed
  have b: "\<exists>t. stars_today_tag item = Some t \<and> py_int (num_part t) = Inr n \<and> (CHR ''-'' \<notin> set (num_part t) \<longrightarrow> 0 \<le> n)"
    if "repo_stars_today r = Some n" for n
  proof -
    from that t obtain t where "stars_today_tag item = Some t" and "parse_count (num_part t) = Some n"
      by (auto simp: extract_stars_today_def split: option.splits)
    then show ?thesis using py_int_nonneg by (auto simp: parse_count_Some)
  qed
  from i e a b show ?thesis by blast
qed


theorem present_stars_value_witness:
  "sample_repos ! 0 \<in> set (extract_repos sample_page)
   \<and> (\<exists>item t. extract_item item = Some (sample_repos ! 0) \<and> star_tag item = Some t
          \<and> py_int (stars_text t) = Inr 1234)
   \<and> (\<exists>item t. extract_item item = Some (sample_repos ! 0) \<and> stars_today_tag item = Some t
          \<and> py_int (num_part t) = Inr 56)"
proof -
  have m: "sample_repos ! 0 \<in> set (extract_repos sample_page)" by code_simp
  have s: "repo_stars (sample_repos ! 0) = Some 1234" "repo_stars_today (sample_repos ! 0) = Some 56"
    by code_simp+
  from present_stars_value [OF m] s m show ?thesis by blast
qed

section \<open>Rows and card entries\<close>

lemma length_enumerate1: "length (enumerate1 xs) = length xs"
  by (simp add: enumerate1_def)

lemma nth_enumerate1: "i < length xs \<Longrightarrow> enumerate1 xs ! i = (int i + 1, xs ! i)"
  by (simp add: enumerate1_def)

lemma length_slice_to: "0 \<le> k \<Longrightarrow> k \<le> int (length xs) \<Longrightarrow> length (slice_to k xs) = nat k"
  by (simp add: slice_to_def)

lemma row_field_Rank: "row_field (bitable_row d s idx r) ''Rank'' = Some (JInt idx)"
  by (simp add: row_field_def bitable_row_def Let_def)

lemma row_field_Stars:
  "row_field (bitable_row d s idx r) ''Stars'' = Some (JInt (case repo_stars r of None \<Rightarrow> 0 | Some n \<Rightarrow> n))"
  by (simp add: row_field_def bitable_row_def Let_def)

lemma row_field_TodayStars:
  "row_field (bitable_row d s idx r) ''TodayStars'' = Some (JInt (case repo_stars_today r of None \<Rightarrow> 0 | Some n \<Rightarrow> n))"
  by (simp add: row_field_def bitable_row_def Let_def)

lemma entry_content_card_entry:
  "entry_content (card_entry sh idx r) =
     Some (py_str idx @ ''. **'' @ repo_name r @ ''**  '' @ newline @
           stars_str r @ '' '' @ middle_dot @ '' '' @ or_else (repo_language r) ''Unknown'' @ ''  '' @ newline @
           sh (or_else (repo_description r) ''(no description)'') @ ''  '' @ newline @ repo_url r)"
  by (simp add: entry_content_def card_entry_def Let_def)

lemma body_elements_card:
  "body_elements (build_feishu_card sh repos l s k) = card_head l s k @ card_entries sh repos k @ card_foot"
  by (simp add: body_elements_def build_feishu_card_def card_elements_def)

lemma nth_rows:
  assumes "i < length (slice_to k repos)"
  shows "build_bitable_records repos l s k today now ! i =
           bitable_row (current_date_ms today) (build_source_tag s l now) (int i + 1) (slice_to k repos ! i)"
  using assms by (simp add: build_bitable_records_def Let_def length_enumerate1 nth_enumerate1)

lemma length_rows: "length (build_bitable_records repos l s k today now) = length (slice_to k repos)"
  by (simp add: build_bitable_records_def Let_def length_enumerate1)

lemma nth_entries:
  assumes "i < length (slice_to k repos)"
  shows "card_entries sh repos k ! i = card_entry sh (int i + 1) (slice_to k repos ! i)"
  using assms by (simp add: card_entries_def length_enumerate1 nth_enumerate1)

lemma length_entries: "length (card_entries sh repos k) = length (slice_to k repos)"
  by (simp add: card_entries_def length_enumerate1)

lemma nth_body_elements:
  assumes "i < length (slice_to k repos)"
  shows "body_elements (build_feishu_card sh repos l s k) ! (3 + i) = card_entry sh (int i + 1) (slice_to k repos ! i)"
proof -
  have "length (card_head l s k) = 3" by (simp add: card_head_def)
  then have "(card_head l s k @ card_entries sh repos k @ card_foot) ! (3 + i) = (card_entries sh repos k @ card_foot) ! i"
    by (simp add: nth_append)
  also have "\<dots> = card_entries sh repos k ! i"
    using assms by (simp add: nth_append length_entries)
  finally show ?thesis using assms by (simp add: body_elements_card nth_entries)
qed

lemma stars_str_cases:
  "stars_str r =
     (case (repo_stars r, repo_stars_today r) of
        (None, None) \<Rightarrow> ''stars: N/A''
      | (Some a, None) \<Rightarrow> star_sign @ '' '' @ py_str a
      | (None, Some b) \<Rightarrow> ''+'' @ py_str b @ '' today''
      | (Some a, Some b) \<Rightarrow> star_sign @ '' '' @ py_str a @ '' '' @ middle_dot @ '' '' @ ''+'' @ py_str b @ '' today'')"
  by (simp add: stars_str_def join_with_def Let_def split: option.splits)

lemma nth_slice_to: "0 \<le> k \<Longrightarrow> i < nat k \<Longrightarrow> slice_to k xs ! i = xs ! i"
  by (simp add: slice_to_def)

text \<open>
  C2, as stated, fails for a negative limit: with three records and the limit -1 the
  slice drops the last record, so two rows and two card entries are produced.
\<close>

theorem truncation_negative_limit:
  "(- 1 :: int) < int (length sample_repos)
   \<and> length (build_bitable_records sample_repos None ''daily'' (- 1) sample_date sample_date) = 2
   \<and> length (card_entries id sample_repos (- 1)) = 2
   \<and> length (body_elements (build_feishu_card id sample_repos None ''daily'' (- 1))) = 7"
  by (simp add: length_rows length_entries body_elements_card slice_to_def sample_repos_def
      card_head_def card_foot_def)

text \<open>
  C2, as amended. For a limit \<open>k\<close> with \<open>0 \<le> k\<close> and more than \<open>k\<close> records, there are
  exactly \<open>k\<close> table rows, row \<open>i\<close> (counted from 1) has the \<^verbatim>\<open>Rank\<close> \<open>i\<close>, and the elements
  of the card are its three leading elements, then exactly \<open>k\<close> entries, then its two
  closing elements; entry \<open>i\<close> begins with the number \<open>i\<close>.
\<close>

theorem truncation_ranks:
  assumes "0 \<le> k" and "k < int (length repos)"
  shows "length (build_bitable_records repos l s k today now) = nat k
       \<and> (\<forall>i < nat k. row_field (build_bitable_records repos l s k today now ! i) ''Rank'' = Some (JInt (int i + 1)))
       \<and> (\<exists>es. body_elements (build_feishu_card sh repos l s k) = card_head l s k @ es @ card_foot
              \<and> length es = nat k
              \<and> (\<forall>i < nat k. \<exists>rest. entry_content (es ! i) = Some (py_str (int i + 1) @ ''. **'' @ rest)))"
proof -
  have len: "length (slice_to k repos) = nat k"
    using assms by (simp add: length_slice_to)
  have rows: "length (build_bitable_records repos l s k today now) = nat k"
    by (simp add: length_rows len)
  have ranks: "\<forall>i < nat k. row_field (build_bitable_records repos l s k today now ! i) ''Rank'' = Some (JInt (int i + 1))"
    by (simp add: nth_rows len row_field_Rank)
  have ents: "\<forall>i < nat k. \<exists>rest. entry_content (card_entries sh repos k ! i) = Some (py_str (int i + 1) @ ''. **'' @ rest)"
    by (simp add: nth_entries len entry_content_card_entry)
  have "body_elements (build_feishu_card sh repos l s k) = card_head l s k @ card_entries sh repos k @ card_foot
        \<and> length (card_entries sh repos k) = nat k"
    by (simp add: body_elements_card length_entries len)
  with ents rows ranks show ?thesis by blast
qed

theorem truncation_ranks_witness:
  "(0::int) \<le> 2 \<and> (2::int) < int (length sample_repos)
   \<and> length (build_bitable_records sample_repos None ''daily'' 2 sample_date sample_date) = 2
   \<and> row_field (build_bitable_records sample_repos None ''daily'' 2 sample_date sample_date ! 1) ''Rank'' = Some (JInt 2)
   \<and> length (body_elements (build_feishu_card id sample_repos None ''daily'' 2)) = 7"
proof -
  have a: "(0::int) \<le> 2" by simp
  have b: "(2::int) < int (length sample_repos)" by (simp add: sample_repos_def)
  have c: "length (card_head None ''daily'' 2) = 3" "length card_foot = 2"
    by (simp_all add: card_head_def card_foot_def)
  from truncation_ranks [OF a b, of None "''daily''" sample_date sample_date id] a b c show ?thesis
    by auto
qed

text \<open>
  C10. In the table row of a record, \<^verbatim>\<open>Stars\<close> and \<^verbatim>\<open>TodayStars\<close> are always integers,
  and 0 where the record has no count. The text of the record's card entry is the numbered
  name, then the figures that are present and no other (\<^verbatim>\<open>stars: N/A\<close> when both are
  absent), then the language, the shortened description and the address.
\<close>

theorem absent_stars_row_and_card:
  assumes "i < length (slice_to limit repos)"
  shows "(repo_stars (slice_to limit repos ! i) = None \<longrightarrow>
            row_field (build_bitable_records repos l s limit today now ! i) ''Stars'' = Some (JInt 0))
       \<and> (repo_stars_today (slice_to limit repos ! i) = None \<longrightarrow>
            row_field (build_bitable_records repos l s limit today now ! i) ''TodayStars'' = Some (JInt 0))
       \<and> (\<exists>a b. row_field (build_bitable_records repos l s limit today now ! i) ''Stars'' = Some (JInt a)
              \<and> row_field (build_bitable_records repos l s limit today now ! i) ''TodayStars'' = Some (JInt b))
       \<and> entry_content (body_elements (build_feishu_card sh repos l s limit) ! (3 + i)) =
            Some (py_str (int i + 1) @ ''. **'' @ repo_name (slice_to limit repos ! i) @ ''**  '' @ newline @
                  (case (repo_stars (slice_to limit repos ! i), repo_stars_today (slice_to limit repos ! i)) of
                     (None, None) \<Rightarrow> ''stars: N/A''
                   | (Some a, None) \<Rightarrow> star_sign @ '' '' @ py_str a
                   | (None, Some b) \<Rightarrow> ''+'' @ py_str b @ '' today''
                   | (Some a, Some b) \<Rightarrow>
                       star_sign @ '' '' @ py_str a @ '' '' @ middle_dot @ '' '' @ ''+'' @ py_str b @ '' today'')
                  @ '' '' @ middle_dot @ '' '' @ or_else (repo_language (slice_to limit repos ! i)) ''Unknown''
                  @ ''  '' @ newline
                  @ sh (or_else (repo_description (slice_to limit repos ! i)) ''(no description)'')
                  @ ''  '' @ newline
                  @ repo_url (slice_to limit repos ! i))"
proof -
  let ?r = "slice_to limit repos ! i"
  let ?row = "build_bitable_records repos l s limit today now ! i"
  have a: "row_field ?row ''Stars'' = Some (JInt (case repo_stars ?r of None \<Rightarrow> 0 | Some n \<Rightarrow> n))"
    using assms by (simp add: nth_rows row_field_Stars)
  have b: "row_field ?row ''TodayStars'' = Some (JInt (case repo_stars_today ?r of None \<Rightarrow> 0 | Some n \<Rightarrow> n))"
    using assms by (simp add: nth_rows row_field_TodayStars)
  have c: "entry_content (body_elements (build_feishu_card sh repos l s limit) ! (3 + i)) =
            Some (py_str (int i + 1) @ ''. **'' @ repo_name ?r @ ''**  '' @ newline @ stars_str ?r @
                  '' '' @ middle_dot @ '' '' @ or_else (repo_language ?r) ''Unknown'' @ ''  '' @ newline @
                   sh (or_else (repo_description ?r) ''(no description)'') @ ''  '' @ newline @ repo_url ?r)"
    using assms by (simp add: nth_body_elements entry_content_card_entry)
  from a b have rows: "(repo_stars ?r = None \<longrightarrow> row_field ?row ''Stars'' = Some (JInt 0))"
    "(repo_stars_today ?r = None \<longrightarrow> row_field ?row ''TodayStars'' = Some (JInt 0))"
    "\<exists>a b. row_field ?row ''Stars'' = Some (JInt a) \<and> row_field ?row ''TodayStars'' = Some (JInt b)"
    by simp_all
  from c have entry: "entry_content (body_elements (build_feishu_card sh repos l s limit) ! (3 + i)) =
            Some (py_str (int i + 1) @ ''. **'' @ repo_name ?r @ ''**  '' @ newline @
                  (case (repo_stars ?r, repo_stars_today ?r) of
                     (None, None) \<Rightarrow> ''stars: N/A''
                   | (Some a, None) \<Rightarrow> star_sign @ '' '' @ py_str a
                   | (None, Some b) \<Rightarrow> ''+'' @ py_str b @ '' today''
                   | (Some a, Some b) \<Rightarrow>
                       star_sign @ '' '' @ py_str a @ '' '' @ middle_dot @ '' '' @ ''+'' @ py_str b @ '' today'')
                  @ '' '' @ middle_dot @ '' '' @ or_else (repo_language ?r) ''Unknown''
                  @ ''  '' @ newline
                  @ sh (or_else (repo_description ?r) ''(no description)'')
                  @ ''  '' @ newline
                  @ repo_url ?r)"
    unfolding stars_str_cases [symmetric] .
  from rows entry show ?thesis by blast
qed

theorem absent_stars_row_and_card_witness:
  "1 < length (slice_to 2 sample_repos)
   \<and> row_field (build_bitable_records sample_repos None ''daily'' 2 sample_date sample_date ! 1) ''Stars'' = Some (JInt 0)
   \<and> row_field (build_bitable_records sample_repos None ''daily'' 2 sample_date sample_date ! 1) ''TodayStars'' = Some (JInt 0)
   \<and> entry_content (body_elements (build_feishu_card id sample_repos None ''daily'' 2) ! 4) =
          Some (''2. **solo/bare**  '' @ newline @ ''stars: N/A '' @ middle_dot @ '' Unknown  '' @ newline @
                ''(no description)  '' @ newline @ ''https://github.com/solo/bare'')
   \<and> 0 < length (slice_to 1 [one_figure_repo])
   \<and> row_field (build_bitable_records [one_figure_repo] None ''daily'' 1 sample_date sample_date ! 0) ''TodayStars'' = Some (JInt 0)
   \<and> entry_content (body_elements (build_feishu_card id [one_figure_repo] None ''daily'' 1) ! 3) =
          Some (''1. **octo/delta**  '' @ newline @ star_sign @ '' 7 '' @ middle_dot @ '' Go  '' @ newline @
                ''Delta  '' @ newline @ ''https://github.com/octo/delta'')"
proof -
  have a: "1 < length (slice_to 2 sample_repos)" by code_simp
  have r: "slice_to 2 sample_repos ! Suc 0 =
      \<lparr> repo_name = ''solo/bare'', repo_url = ''https://github.com/solo/bare'',
        repo_description = [], repo_language = [], repo_stars = None, repo_stars_today = None \<rparr>"
    by code_simp
  have p: "py_str 2 = ''2''" "py_str 1 = ''1''" "py_str 7 = ''7''" by code_simp+
  have first: "row_field (build_bitable_records sample_repos None ''daily'' 2 sample_date sample_date ! 1) ''Stars'' = Some (JInt 0)
     \<and> row_field (build_bitable_records sample_repos None ''daily'' 2 sample_date sample_date ! 1) ''TodayStars'' = Some (JInt 0)
     \<and> entry_content (body_elements (build_feishu_card id sample_repos None ''daily'' 2) ! 4) =
          Some (''2. **solo/bare**  '' @ newline @ ''stars: N/A '' @ middle_dot @ '' Unknown  '' @ newline @
                ''(no description)  '' @ newline @ ''https://github.com/solo/bare'')"
    using absent_stars_row_and_card [OF a, of None "''daily''" sample_date sample_date id] p
    by (simp add: r or_else_def)
  have b: "0 < length (slice_to 1 [one_figure_repo])" by (simp add: slice_to_def)
  have q: "slice_to 1 [one_figure_repo] ! 0 = one_figure_repo" by (simp add: slice_to_def)
  have second: "row_field (build_bitable_records [one_figure_repo] None ''daily'' 1 sample_date sample_date ! 0) ''TodayStars'' = Some (JInt 0)
     \<and> entry_content (body_elements (build_feishu_card id [one_figure_repo] None ''daily'' 1) ! 3) =
          Some (''1. **octo/delta**  '' @ newline @ star_sign @ '' 7 '' @ middle_dot @ '' Go  '' @ newline @
                ''Delta  '' @ newline @ ''https://github.com/octo/delta'')"
    using absent_stars_row_and_card [OF b, of None "''daily''" sample_date sample_date id] p
    unfolding q by (simp add: one_figure_repo_def or_else_def)
  from a b first second show ?thesis by simp
qed

section \<open>The token provider and the table writer\<close>

text \<open>
  C7, as stated, fails: with both secrets set, a response with a success status and a body
  whose \<^verbatim>\<open>code\<close> is 0 but which carries no \<^verbatim>\<open>tenant_access_token\<close>, none of the three
  cases holds, and yet the function raises (\<^verbatim>\<open>KeyError\<close>) instead of returning a token.
\<close>

theorem token_key_missing:
  "\<not> secrets_unset sample_config \<and> \<not> transport_fails (token_reply tokenless_network)
   \<and> \<not> body_code_nonzero (token_reply tokenless_network)
   \<and> snd (get_tenant_access_token sample_config tokenless_network) = Inl (KeyError ''tenant_access_token'')"
  by (simp add: secrets_unset_def transport_fails_def body_code_nonzero_def sample_config_def
      tokenless_network_def sample_network_def ok_body_def get_tenant_access_token_def truthy_def
      Let_def raise_for_status_def check_code_def code_not_zero_def)

text \<open>
  C7, as amended. The function raises in exactly five cases: a secret is unset; the
  request fails in transport or with an error status; the body is a JSON object whose
  \<^verbatim>\<open>code\<close> is not 0; the body is not a JSON object; the body has no
  \<^verbatim>\<open>tenant_access_token\<close>. Otherwise, and only then, it returns the token of the response.
\<close>

theorem token_result:
  "(isl (snd (get_tenant_access_token cfg net)) \<longleftrightarrow>
       secrets_unset cfg \<or> transport_fails (token_reply net) \<or> body_code_nonzero (token_reply net)
       \<or> body_not_object (token_reply net) \<or> token_absent (token_reply net))
   \<and> (snd (get_tenant_access_token cfg net) = Inr tok \<longleftrightarrow>
       \<not> secrets_unset cfg \<and>
       (\<exists>st d. token_reply net = Reply st (Some (JObj d)) \<and> \<not> (400 \<le> st \<and> st < 600)
          \<and> \<not> code_not_zero (map_of d ''code'') \<and> map_of d ''tenant_access_token'' = Some tok))"
proof (cases "secrets_unset cfg")
  case True
  then show ?thesis by (auto simp: get_tenant_access_token_def secrets_unset_def)
next
  case False
  then have set: "truthy (FEISHU_APP_ID cfg)" "truthy (FEISHU_APP_SECRET cfg)"
    by (simp_all add: secrets_unset_def)
  show ?thesis
  proof (cases "token_reply net")
    case Transport_error
    with set show ?thesis
      by (simp add: get_tenant_access_token_def Let_def transport_fails_def secrets_unset_def)
  next
    case (Reply st body)
    show ?thesis
    proof (cases "400 \<le> st \<and> st < 600")
      case True
      with set Reply show ?thesis
        by (simp add: get_tenant_access_token_def Let_def transport_fails_def raise_for_status_def secrets_unset_def)
    next
      case ok: False
      show ?thesis
      proof (cases body)
        case None
        with set Reply ok show ?thesis
          by (simp add: get_tenant_access_token_def Let_def transport_fails_def raise_for_status_def
              check_code_def body_not_object_def secrets_unset_def)
      next
        case (Some j)
        with set Reply ok show ?thesis
          by (cases j)
             (auto simp: get_tenant_access_token_def Let_def transport_fails_def raise_for_status_def
              check_code_def body_not_object_def body_code_nonzero_def token_absent_def secrets_unset_def
              split: option.splits)
      qed
    qed
  qed
qed

theorem token_result_witness:
  "\<not> secrets_unset sample_config
   \<and> snd (get_tenant_access_token sample_config granting_network) = Inr (JStr ''t-abc'')
   \<and> \<not> isl (snd (get_tenant_access_token sample_config granting_network))"
proof -
  have s: "\<not> secrets_unset sample_config"
    by (simp add: secrets_unset_def sample_config_def truthy_def)
  have r: "token_reply granting_network =
             Reply 200 (Some (JObj [(''code'', JInt 0), (''tenant_access_token'', JStr ''t-abc'')]))"
    by (simp add: granting_network_def)
  have c: "\<not> code_not_zero (map_of [(''code'', JInt 0), (''tenant_access_token'', JStr ''t-abc'')] ''code'')"
    by (simp add: code_not_zero_def)
  have "snd (get_tenant_access_token sample_config granting_network) = Inr (JStr ''t-abc'')"
    using token_result [of sample_config granting_network "JStr ''t-abc''"] s r c by simp
  with s show ?thesis by simp
qed

text \<open>
  C8. With no records the table writer does nothing: no request, no output, no error,
  whatever the configuration and the network are.
\<close>

theorem write_empty_noop: "write_records_to_bitable cfg net [] = ([], Inr ())"
  by (simp add: write_records_to_bitable_def)

theorem write_empty_noop_witness:
  "\<not> truthy (BITABLE_APP_TOKEN (sample_config \<lparr> BITABLE_APP_TOKEN := None \<rparr>))
   \<and> write_records_to_bitable (sample_config \<lparr> BITABLE_APP_TOKEN := None \<rparr>) sample_network [] = ([], Inr ())"
  using write_empty_noop [of "sample_config \<lparr> BITABLE_APP_TOKEN := None \<rparr>" sample_network]
  by (simp add: truthy_def)

section \<open>The run\<close>

lemma webhook_missing_iff: "webhook_missing a cfg \<longleftrightarrow> \<not> truthy (webhook_url_of a cfg)"
  by (auto simp: webhook_missing_def webhook_url_of_def)

lemma main_missing:
  "webhook_missing a cfg \<Longrightarrow> main sh (Parsed a) cfg clk net = ([Print_err No_webhook_url], 1)"
  by (auto simp: webhook_missing_iff truthy_def main_def split: option.splits)

lemma main_fetch_failed:
  assumes "\<not> webhook_missing a cfg" and "fetch_trending (arg_language a) (arg_since a) net = (ev1, Inl e)"
  shows "main sh (Parsed a) cfg clk net = (ev1 @ [Print_err (Fetch_failed e)], 1)"
  using assms by (auto simp: webhook_missing_iff truthy_def main_def split: option.splits)

lemma main_nothing:
  assumes "\<not> webhook_missing a cfg" and "fetch_trending (arg_language a) (arg_since a) net = (ev1, Inr [])"
  shows "main sh (Parsed a) cfg clk net = (ev1 @ [Print_err No_repositories], 0)"
  using assms by (auto simp: webhook_missing_iff truthy_def main_def split: option.splits)

lemma main_send:
  assumes "\<not> webhook_missing a cfg" and "fetch_trending (arg_language a) (arg_since a) net = (ev1, Inr repos)"
    and "repos \<noteq> []"
    and "send_card_to_feishu (or_default (webhook_url_of a cfg) [])
            (build_feishu_card sh repos (arg_language a) (arg_since a) (arg_limit a)) net = (ev3, res)"
  shows "main sh (Parsed a) cfg clk net =
           (ev1 @ table_step a cfg clk net repos @ ev3 @
              [case res of Inl e \<Rightarrow> Print_err (Send_failed e) | Inr u \<Rightarrow> Print_out Done],
            case res of Inl e \<Rightarrow> 1 | Inr u \<Rightarrow> 0)"
  using assms
  by (auto simp: webhook_missing_iff truthy_def main_def or_default_def Let_def split: option.splits sum.splits)

lemma main_code:
  "snd (main sh (Parsed a) cfg clk net) =
      (if webhook_missing a cfg then 1
       else case fetch_result a net of
              Inl e \<Rightarrow> 1
            | Inr repos \<Rightarrow> if repos = [] then 0 else if isl (send_result sh a cfg net repos) then 1 else 0)"
proof (cases "webhook_missing a cfg")
  case True
  then show ?thesis by (simp add: main_missing)
next
  case present: False
  obtain ev1 fr where f: "fetch_trending (arg_language a) (arg_since a) net = (ev1, fr)"
    by (cases "fetch_trending (arg_language a) (arg_since a) net")
  show ?thesis
  proof (cases fr)
    case (Inl e)
    with present f show ?thesis by (simp add: main_fetch_failed fetch_result_def)
  next
    case (Inr repos)
    show ?thesis
    proof (cases "repos = []")
      case True
      with present f Inr show ?thesis by (simp add: main_nothing fetch_result_def)
    next
      case False
      obtain ev3 res where s: "send_card_to_feishu (or_default (webhook_url_of a cfg) [])
          (build_feishu_card sh repos (arg_language a) (arg_since a) (arg_limit a)) net = (ev3, res)"
        by (cases "send_card_to_feishu (or_default (webhook_url_of a cfg) [])
          (build_feishu_card sh repos (arg_language a) (arg_since a) (arg_limit a)) net")
      from main_send [OF present _ False s, of ev1 clk] f Inr s False present show ?thesis
        by (simp add: fetch_result_def send_result_def split: sum.splits)
    qed
  qed
qed

text \<open>
  C5, as stated, fails: the argument parser exits before the webhook URL is looked at.
  With no webhook URL in the environment, a command line that asks for help (and so
  carries no \<^verbatim>\<open>--webhook\<close> flag) ends with the exit code 0, and one that the parser
  rejects, such as \<^verbatim>\<open>--limit ten\<close>, ends with the exit code 2; neither ends with 1.
\<close>

theorem parser_exit_without_webhook:
  "FEISHU_WEBHOOK_URL no_webhook_config = None
   \<and> snd (main id Help_shown no_webhook_config sample_clock sample_network) = 0
   \<and> snd (main id Usage_error no_webhook_config sample_clock sample_network) = 2"
  by (simp add: main_def no_webhook_config_def)

text \<open>
  C5, as amended. When the parser rejects the command line the exit code is 2, and when
  it answers a request for help the exit code is 0. When the command line parses, the
  exit code is 1 exactly when the webhook URL is missing, or the fetch raises, or records
  were found and sending the card raises; it is 0 exactly when, with a webhook URL, no
  record was found or the card was sent; and it does not depend on the table
  configuration, on the clock, or on the replies to the token and batch requests.
\<close>

theorem main_exit_code:
  "snd (main sh Usage_error cfg clk net) = 2
   \<and> snd (main sh Help_shown cfg clk net) = 0
   \<and> (snd (main sh (Parsed a) cfg clk net) = 1 \<longleftrightarrow>
      webhook_missing a cfg
      \<or> (\<not> webhook_missing a cfg \<and> isl (fetch_result a net))
      \<or> (\<not> webhook_missing a cfg \<and>
           (\<exists>repos. fetch_result a net = Inr repos \<and> repos \<noteq> [] \<and> isl (send_result sh a cfg net repos))))
   \<and> (snd (main sh (Parsed a) cfg clk net) = 0 \<longleftrightarrow>
      \<not> webhook_missing a cfg \<and>
      (fetch_result a net = Inr [] \<or>
       (\<exists>repos. fetch_result a net = Inr repos \<and> repos \<noteq> [] \<and> \<not> isl (send_result sh a cfg net repos))))
   \<and> snd (main sh (Parsed a)
            (cfg\<lparr>FEISHU_APP_ID := app_id, FEISHU_APP_SECRET := app_secret,
                 BITABLE_APP_TOKEN := app_token, BITABLE_TABLE_ID := table_id\<rparr>)
            clk' (net\<lparr>token_reply := tr, batch_reply := br\<rparr>))
       = snd (main sh (Parsed a) cfg clk net)"
proof -
  have parser: "snd (main sh Usage_error cfg clk net) = 2" "snd (main sh Help_shown cfg clk net) = 0"
    by (simp_all add: main_def)
  have one: "snd (main sh (Parsed a) cfg clk net) = 1 \<longleftrightarrow>
      webhook_missing a cfg
      \<or> (\<not> webhook_missing a cfg \<and> isl (fetch_result a net))
      \<or> (\<not> webhook_missing a cfg \<and>
           (\<exists>repos. fetch_result a net = Inr repos \<and> repos \<noteq> [] \<and> isl (send_result sh a cfg net repos)))"
    by (cases "fetch_result a net") (auto simp: main_code)
  have zero: "snd (main sh (Parsed a) cfg clk net) = 0 \<longleftrightarrow>
      \<not> webhook_missing a cfg \<and>
      (fetch_result a net = Inr [] \<or>
       (\<exists>repos. fetch_result a net = Inr repos \<and> repos \<noteq> [] \<and> \<not> isl (send_result sh a cfg net repos)))"
    by (cases "fetch_result a net") (auto simp: main_code)
  have indep: "snd (main sh (Parsed a)
            (cfg\<lparr>FEISHU_APP_ID := app_id, FEISHU_APP_SECRET := app_secret,
                 BITABLE_APP_TOKEN := app_token, BITABLE_TABLE_ID := table_id\<rparr>)
            clk' (net\<lparr>token_reply := tr, batch_reply := br\<rparr>))
       = snd (main sh (Parsed a) cfg clk net)"
  proof -
    let ?cfg = "cfg\<lparr>FEISHU_APP_ID := app_id, FEISHU_APP_SECRET := app_secret,
                 BITABLE_APP_TOKEN := app_token, BITABLE_TABLE_ID := table_id\<rparr>"
    let ?net = "net\<lparr>token_reply := tr, batch_reply := br\<rparr>"
    have w: "webhook_missing a ?cfg = webhook_missing a cfg"
      by (simp add: webhook_missing_def)
    have f: "fetch_result a ?net = fetch_result a net"
      by (simp add: fetch_result_def fetch_trending_def)
    have s: "send_result sh a ?cfg ?net repos = send_result sh a cfg net repos" for repos
      by (simp add: send_result_def send_card_to_feishu_def webhook_url_of_def)
    show ?thesis
      unfolding main_code w f s ..
  qed
  from parser one zero indep show ?thesis by blast
qed

lemma sample_fetch:
  "fetch_trending None ''daily'' sample_network = ([Http_get ''https://github.com/trending?since=daily''], Inr sample_repos)"
  by code_simp

lemma sample_present: "\<not> webhook_missing sample_args sample_config"
  by (simp add: webhook_missing_def sample_args_def sample_config_def truthy_def)

lemma sample_send: "send_result id sample_args sample_config sample_network sample_repos = Inr ()"
  by (simp add: send_result_def send_card_to_feishu_def sample_network_def ok_body_def Let_def
      raise_for_status_def check_code_def code_not_zero_def)

theorem main_exit_code_witness:
  "\<not> webhook_missing sample_args sample_config
   \<and> fetch_result sample_args sample_network = Inr sample_repos
   \<and> snd (main id (Parsed sample_args) sample_config sample_clock sample_network) = 0
   \<and> snd (main id (Parsed sample_args) sample_config sample_clock granting_network) = 0
   \<and> webhook_missing sample_args no_webhook_config
   \<and> snd (main id (Parsed sample_args) no_webhook_config sample_clock sample_network) = 1
   \<and> isl (fetch_result sample_args offline_network)
   \<and> snd (main id (Parsed sample_args) sample_config sample_clock offline_network) = 1
   \<and> isl (send_result id sample_args sample_config refusing_network sample_repos)
   \<and> snd (main id (Parsed sample_args) sample_config sample_clock refusing_network) = 1"
proof -
  have f: "fetch_result sample_args sample_network = Inr sample_repos"
    using sample_fetch by (simp add: fetch_result_def sample_args_def)
  have n: "sample_repos \<noteq> []" by (simp add: sample_repos_def)
  have z: "snd (main id (Parsed sample_args) sample_config sample_clock sample_network) = 0"
    using main_exit_code [where sh = id and a = sample_args and cfg = sample_config
        and clk = sample_clock and net = sample_network]
      sample_present f n sample_send by simp
  have g: "granting_network =
             sample_network \<lparr> token_reply := token_reply granting_network, batch_reply := batch_reply sample_network \<rparr>"
    by (simp add: granting_network_def)
  have c: "sample_config = sample_config \<lparr> FEISHU_APP_ID := FEISHU_APP_ID sample_config,
             FEISHU_APP_SECRET := FEISHU_APP_SECRET sample_config,
             BITABLE_APP_TOKEN := BITABLE_APP_TOKEN sample_config,
             BITABLE_TABLE_ID := BITABLE_TABLE_ID sample_config \<rparr>"
    by simp
  have "snd (main id (Parsed sample_args) sample_config sample_clock granting_network) =
        snd (main id (Parsed sample_args) sample_config sample_clock sample_network)"
    using main_exit_code [where sh = id and a = sample_args and cfg = sample_config
        and clk = sample_clock and net = sample_network
        and app_id = "FEISHU_APP_ID sample_config" and app_secret = "FEISHU_APP_SECRET sample_config"
        and app_token = "BITABLE_APP_TOKEN sample_config" and table_id = "BITABLE_TABLE_ID sample_config"
        and clk' = sample_clock
        and tr = "token_reply granting_network" and br = "batch_reply sample_network"]
    unfolding g [symmetric] c [symmetric] by blast
  with z have zg: "snd (main id (Parsed sample_args) sample_config sample_clock granting_network) = 0"
    by simp
  have m: "webhook_missing sample_args no_webhook_config"
    by (simp add: webhook_missing_def sample_args_def no_webhook_config_def truthy_def)
  have m1: "snd (main id (Parsed sample_args) no_webhook_config sample_clock sample_network) = 1"
    using main_exit_code [where sh = id and a = sample_args and cfg = no_webhook_config
        and clk = sample_clock and net = sample_network] m by simp
  have o: "isl (fetch_result sample_args offline_network)"
    by (simp add: fetch_result_def fetch_trending_def offline_network_def Let_def)
  have o1: "snd (main id (Parsed sample_args) sample_config sample_clock offline_network) = 1"
    using main_exit_code [where sh = id and a = sample_args and cfg = sample_config
        and clk = sample_clock and net = offline_network] o by simp
  have rf: "fetch_result sample_args refusing_network = Inr sample_repos"
    using f by (simp add: fetch_result_def fetch_trending_def refusing_network_def)
  have r: "isl (send_result id sample_args sample_config refusing_network sample_repos)"
    by (simp add: send_result_def send_card_to_feishu_def refusing_network_def Let_def
        raise_for_status_def)
  have r1: "snd (main id (Parsed sample_args) sample_config sample_clock refusing_network) = 1"
    using main_exit_code [where sh = id and a = sample_args and cfg = sample_config
        and clk = sample_clock and net = refusing_network] sample_present rf n r by simp
  from sample_present f z zg m m1 o o1 r r1 show ?thesis by simp
qed

text \<open>
  C6. In a run that reaches the table write and in which the write raises, the events
  are: those of the fetch, those of the write, the printed error of the write, then the
  POST of the card to the webhook and what follows it; the exit code is that of the send.
\<close>

theorem table_failure_ignored:
  assumes "\<not> webhook_missing a cfg"
    and "fetch_trending (arg_language a) (arg_since a) net = (ev1, Inr repos)" and "repos \<noteq> []"
    and "bitable_ready cfg"
    and "write_records_to_bitable cfg net
           (build_bitable_records repos (arg_language a) (arg_since a) (arg_limit a)
              (date_for_rows clk) (date_for_tag clk)) = (ev2, Inl e)"
  shows "\<exists>url ev3 last.
           webhook_url_of a cfg = Some url
         \<and> fst (main sh (Parsed a) cfg clk net) =
             ev1 @ ev2 @ [Print_err (Bitable_failed e)] @
             [Http_post url None
                (JObj [(''msg_type'', JStr ''interactive''),
                       (''card'', build_feishu_card sh repos (arg_language a) (arg_since a) (arg_limit a))])]
             @ ev3 @ [last]
         \<and> snd (main sh (Parsed a) cfg clk net) = (if isl (send_result sh a cfg net repos) then 1 else 0)"
proof -
  from assms(1) obtain url where u: "webhook_url_of a cfg = Some url" and ne: "url \<noteq> []"
    by (auto simp: webhook_missing_iff truthy_def split: option.splits)
  have ts: "table_step a cfg clk net repos = ev2 @ [Print_err (Bitable_failed e)]"
    using assms(4,5) by (simp add: table_step_def Let_def)
  obtain ev res where s: "send_card_to_feishu url
            (build_feishu_card sh repos (arg_language a) (arg_since a) (arg_limit a)) net = (ev, res)"
    by (cases "send_card_to_feishu url
            (build_feishu_card sh repos (arg_language a) (arg_since a) (arg_limit a)) net")
  then obtain ev3 where ev: "ev = Http_post url None
                (JObj [(''msg_type'', JStr ''interactive''),
                       (''card'', build_feishu_card sh repos (arg_language a) (arg_since a) (arg_limit a))]) # ev3"
    by (auto simp: send_card_to_feishu_def Let_def split: reply.splits option.splits sum.splits exn.splits)
  have od: "or_default (webhook_url_of a cfg) [] = url"
    using u ne by (simp add: or_default_def)
  from main_send [OF assms(1,2,3), of sh ev res clk] s od
  have m: "main sh (Parsed a) cfg clk net =
           (ev1 @ table_step a cfg clk net repos @ ev @
              [case res of Inl e \<Rightarrow> Print_err (Send_failed e) | Inr u \<Rightarrow> Print_out Done],
            case res of Inl e \<Rightarrow> 1 | Inr u \<Rightarrow> 0)" by simp
  have sr: "send_result sh a cfg net repos = res"
    using s od by (simp add: send_result_def)
  from m ts ev u sr show ?thesis
    by (auto split: sum.splits)
qed

theorem table_failure_ignored_witness:
  "\<not> webhook_missing sample_args sample_config
   \<and> bitable_ready sample_config
   \<and> (\<exists>ev3 last.
         fst (main id (Parsed sample_args) sample_config sample_clock sample_network) =
           [Http_get ''https://github.com/trending?since=daily'',
            Http_post token_url None (JObj [(''app_id'', JStr ''cli_a1''), (''app_secret'', JStr ''s3cret'')]),
            Print_err (Bitable_failed (RuntimeError ''get_tenant_access_token failed'')),
            Http_post ''https://open.feishu.cn/hook/1'' None
              (JObj [(''msg_type'', JStr ''interactive''),
                     (''card'', build_feishu_card id sample_repos None ''daily'' 2)])]
           @ ev3 @ [last])
   \<and> snd (main id (Parsed sample_args) sample_config sample_clock sample_network) = 0"
proof -
  have f: "fetch_trending (arg_language sample_args) (arg_since sample_args) sample_network
             = ([Http_get ''https://github.com/trending?since=daily''], Inr sample_repos)"
    using sample_fetch by (simp add: sample_args_def)
  have n: "sample_repos \<noteq> []" by (simp add: sample_repos_def)
  have b: "bitable_ready sample_config"
    by (simp add: bitable_ready_def sample_config_def truthy_def)
  have ne: "build_bitable_records sample_repos (arg_language sample_args) (arg_since sample_args)
              (arg_limit sample_args) (date_for_rows sample_clock) (date_for_tag sample_clock) \<noteq> []"
    using length_rows [of sample_repos "arg_language sample_args" "arg_since sample_args"
        "arg_limit sample_args" "date_for_rows sample_clock" "date_for_tag sample_clock"]
    by (auto simp: sample_args_def sample_repos_def slice_to_def)
  have w: "write_records_to_bitable sample_config sample_network
             (build_bitable_records sample_repos (arg_language sample_args) (arg_since sample_args)
                (arg_limit sample_args) (date_for_rows sample_clock) (date_for_tag sample_clock))
           = ([Http_post token_url None (JObj [(''app_id'', JStr ''cli_a1''), (''app_secret'', JStr ''s3cret'')])],
              Inl (RuntimeError ''get_tenant_access_token failed''))"
    using ne
    by (simp add: write_records_to_bitable_def get_tenant_access_token_def sample_config_def
        sample_network_def truthy_def or_default_def Let_def raise_for_status_def check_code_def
        code_not_zero_def)
  have u: "webhook_url_of sample_args sample_config = Some ''https://open.feishu.cn/hook/1''"
    by (simp add: webhook_url_of_def sample_args_def sample_config_def truthy_def)
  from table_failure_ignored [OF sample_present f n b w, of id] u sample_send b sample_present
  show ?thesis by (auto simp: sample_args_def)
qed

section \<open>Numbers as text\<close>

lemma is_digit_char_of: "d < 10 \<Longrightarrow> is_digit (char_of (48 + d :: nat)) \<and> digit_val (char_of (48 + d)) = d"
  by (simp add: is_digit_def digit_val_def Let_def)

lemma digit_not_space: "is_digit c \<Longrightarrow> \<not> is_int_space c"
  by (auto simp: is_digit_def is_int_space_def Let_def)

lemma digit_not_sign: "is_digit c \<Longrightarrow> c \<noteq> CHR ''-'' \<and> c \<noteq> CHR ''+''"
  by (auto simp: is_digit_def Let_def)

lemma int_digits_all:
  assumes "\<forall>c \<in> set s. is_digit c" and "s \<noteq> [] \<or> \<not> need"
  shows "int_digits s need acc = Some (foldl (\<lambda>a c. 10 * a + digit_val c) acc s)"
  using assms by (induction s arbitrary: need acc) auto

lemma str_nat_digits: "(\<forall>c \<in> set (str_nat n). is_digit c) \<and> str_nat n \<noteq> []"
proof (induction n rule: str_nat.induct)
  case (1 n)
  show ?case
  proof (cases "n < 10")
    case True
    then show ?thesis using is_digit_char_of [of n] by (simp add: str_nat.simps [of n])
  next
    case False
    then show ?thesis using 1 is_digit_char_of [of "n mod 10"] by (simp add: str_nat.simps [of n])
  qed
qed

lemma str_nat_value: "foldl (\<lambda>a c. 10 * a + digit_val c) 0 (str_nat n) = n"
proof (induction n rule: str_nat.induct)
  case (1 n)
  show ?case
  proof (cases "n < 10")
    case True
    then show ?thesis using is_digit_char_of [of n] by (simp add: str_nat.simps [of n])
  next
    case False
    then show ?thesis using 1 is_digit_char_of [of "n mod 10"] by (simp add: str_nat.simps [of n])
  qed
qed

lemma zeros_value: "foldl (\<lambda>a c. 10 * a + digit_val c) 0 (replicate k CHR ''0'') = 0"
  by (induction k) (simp_all add: digit_val_def)

lemma int_strip_digits:
  assumes "\<forall>c \<in> set s. is_digit c"
  shows "int_strip s = s"
proof -
  have a: "dropWhile is_int_space t = t" if "\<forall>c \<in> set t. is_digit c" for t
    using that by (cases t) (auto simp: digit_not_space)
  have "dropWhile is_int_space s = s" using assms by (simp add: a)
  moreover have "dropWhile is_int_space (rev s) = rev s" using assms a [of "rev s"] by simp
  ultimately show ?thesis by (simp add: int_strip_def)
qed

lemma py_int_digits:
  assumes "\<forall>c \<in> set s. is_digit c" and "s \<noteq> []"
  shows "py_int s = Inr (int (foldl (\<lambda>a c. 10 * a + digit_val c) 0 s))"
proof -
  from assms obtain c cs where s: "s = c # cs" by (cases s) auto
  with assms have c: "c \<noteq> CHR ''-''" "c \<noteq> CHR ''+''" using digit_not_sign [of c] by auto
  have "py_int s = (case int_digits s True 0 of None \<Rightarrow> Inl ValueError | Some n \<Rightarrow> Inr (int n))"
    unfolding py_int_def int_strip_digits [OF assms(1)] Let_def
    by (simp add: s c del: int_digits.simps split: option.split)
  then show ?thesis
    using int_digits_all [OF assms(1), of True 0] assms(2) by simp
qed

lemma py_int_zfill:
  assumes "0 \<le> i"
  shows "py_int (zfill k i) = Inr i"
proof -
  let ?s = "replicate (k - length (str_nat (nat i))) CHR ''0'' @ str_nat (nat i)"
  have z: "zfill k i = ?s" using assms by (simp add: zfill_def py_str_def Let_def)
  have "is_digit CHR ''0''" by (simp add: is_digit_def)
  then have d: "\<forall>c \<in> set ?s. is_digit c" and ne: "?s \<noteq> []"
    using str_nat_digits [of "nat i"] by auto
  show ?thesis
    unfolding z using py_int_digits [OF d ne] assms by (simp add: zeros_value str_nat_value)
qed

lemma py_int_py_str:
  assumes "0 \<le> i"
  shows "py_int (py_str i) = Inr i"
  using py_int_zfill [OF assms, of 0] assms by (simp add: zfill_def Let_def)

lemma length_str_nat:
  "length (str_nat n) = (if n < 10 then 1 else if n < 100 then 2 else if n < 1000 then 3
                         else if n < 10000 then 4 else length (str_nat n))"
proof -
  have a: "n < 10 \<Longrightarrow> length (str_nat n) = 1" for n by (simp add: str_nat.simps [of n])
  have b: "\<not> n < 10 \<Longrightarrow> length (str_nat n) = length (str_nat (n div 10)) + 1" for n
    by (simp add: str_nat.simps [of n])
  have c: "n < 100 \<Longrightarrow> \<not> n < 10 \<Longrightarrow> length (str_nat n) = 2" for n
    using a [of "n div 10"] b [of n] by simp
  have d: "n < 1000 \<Longrightarrow> \<not> n < 100 \<Longrightarrow> length (str_nat n) = 3" for n
    using c [of "n div 10"] b [of n] by simp
  have e: "n < 10000 \<Longrightarrow> \<not> n < 1000 \<Longrightarrow> length (str_nat n) = 4" for n
    using d [of "n div 10"] b [of n] by simp
  show ?thesis using a c d e by auto
qed

lemma length_zfill2: "0 \<le> i \<Longrightarrow> i < 100 \<Longrightarrow> length (zfill 2 i) = 2"
  using length_str_nat [of "nat i"] by (auto simp: zfill_def py_str_def Let_def split: if_splits)

lemma length_zfill4: "0 \<le> i \<Longrightarrow> i < 10000 \<Longrightarrow> length (zfill 4 i) = 4"
  using length_str_nat [of "nat i"] by (auto simp: zfill_def py_str_def Let_def split: if_splits)

lemma zfill_digits:
  assumes "0 \<le> i"
  shows "list_all is_digit (zfill k i)"
proof -
  have "is_digit CHR ''0''" by (simp add: is_digit_def)
  then show ?thesis
    using assms str_nat_digits [of "nat i"]
    by (auto simp: zfill_def py_str_def Let_def list_all_iff)
qed

lemma py_str_digits:
  assumes "0 \<le> i"
  shows "list_all is_digit (py_str i)"
  using assms str_nat_digits [of "nat i"] by (auto simp: py_str_def list_all_iff)

section \<open>The calendar\<close>

lemma div_step:
  fixes z k :: int
  assumes "0 < k"
  shows "(z + 1) div k = (if (z + 1) mod k = 0 then z div k + 1 else z div k)"
proof -
  define q where "q = (z + 1) div k"
  define r where "r = (z + 1) mod k"
  have eq: "z + 1 = k * q + r" by (simp add: q_def r_def)
  have r: "0 \<le> r" "r < k" using assms by (simp_all add: r_def)
  show ?thesis
  proof (cases "r = 0")
    case True
    then have "z = k * (q - 1) + (k - 1)" using eq by (simp add: algebra_simps)
    then have "z div k = q - 1" using assms by (intro int_div_pos_eq [where r = "k - 1"]) simp_all
    with True show ?thesis by (simp add: q_def r_def)
  next
    case False
    then have "z = k * q + (r - 1)" using eq by simp
    then have "z div k = q" using r False by (intro int_div_pos_eq [where r = "r - 1"]) simp_all
    with False show ?thesis by (simp add: q_def r_def)
  qed
qed

lemma year_length: "days_before_year (y + 1) - days_before_year y = (if is_leap y then 366 else 365)"
proof -
  have a: "y div 4 = (if y mod 4 = 0 then (y - 1) div 4 + 1 else (y - 1) div 4)"
    using div_step [of 4 "y - 1"] by simp
  have b: "y div 100 = (if y mod 100 = 0 then (y - 1) div 100 + 1 else (y - 1) div 100)"
    using div_step [of 100 "y - 1"] by simp
  have c: "y div 400 = (if y mod 400 = 0 then (y - 1) div 400 + 1 else (y - 1) div 400)"
    using div_step [of 400 "y - 1"] by simp
  have d: "y mod 400 = 0 \<Longrightarrow> y mod 100 = 0"
    using dvd_trans [of 100 400 y] by (simp add: mod_eq_0_iff_dvd)
  have e: "y mod 100 = 0 \<Longrightarrow> y mod 4 = 0"
    using dvd_trans [of 4 100 y] by (simp add: mod_eq_0_iff_dvd)
  have "days_before_year (y + 1) - days_before_year y
          = 365 + (y div 4 - (y - 1) div 4) - (y div 100 - (y - 1) div 100) + (y div 400 - (y - 1) div 400)"
    by (simp add: days_before_year_def Let_def algebra_simps)
  also have "\<dots> = (if is_leap y then 366 else 365)"
    unfolding is_leap_def
    by (cases "y mod 4 = 0"; cases "y mod 100 = 0"; cases "y mod 400 = 0") (use d e in \<open>simp_all add: a b c\<close>)
  finally show ?thesis .
qed

lemma year_bounds:
  "days_before_year y + 365 \<le> days_before_year (y + 1) \<and> days_before_year (y + 1) \<le> days_before_year y + 366"
  using year_length [of y] by (cases "is_leap y") simp_all

lemma jan1: "ymd2ord y 1 1 = days_before_year y + 1"
  by (simp add: ymd2ord_def days_before_month_def)

lemma month_cases:
  fixes m :: int
  assumes "1 \<le> m" and "m \<le> 12"
  shows "m = 1 \<or> m = 2 \<or> m = 3 \<or> m = 4 \<or> m = 5 \<or> m = 6 \<or> m = 7 \<or> m = 8 \<or> m = 9 \<or> m = 10 \<or> m = 11 \<or> m = 12"
  using assms by arith

lemma month_span:
  fixes m :: int
  assumes "1 \<le> m" and "m \<le> 12"
  shows "0 \<le> days_before_month y m
       \<and> days_before_month y m + days_in_month y m \<le> (if is_leap y then 366 else 365)"
  using month_cases [OF assms]
  by (elim disjE) (simp_all add: days_before_month_def days_in_month_def)

lemma day_in_year:
  assumes "valid_date dt"
  shows "days_before_year (year dt) + 1 \<le> toordinal dt \<and> toordinal dt \<le> days_before_year (year dt + 1)"
proof -
  from assms have d: "1 \<le> day dt" "day dt \<le> days_in_month (year dt) (month dt)"
    and m: "1 \<le> month dt" "month dt \<le> 12"
    by (simp_all add: valid_date_def)
  from month_span [OF m, of "year dt"] d year_length [of "year dt"] show ?thesis
    unfolding toordinal_def ymd2ord_def by (cases "is_leap (year dt)") simp_all
qed

lemma week1monday:
  "(isoweek1monday y + 6) mod 7 = 0 \<and> days_before_year y + 1 \<le> isoweek1monday y + 3
   \<and> isoweek1monday y + 3 \<le> days_before_year y + 7"
proof -
  define J where "J = days_before_year y + 1"
  have "((if 3 < (J + 6) mod 7 then J - (J + 6) mod 7 + 7 else J - (J + 6) mod 7) + 6) mod 7 = 0
      \<and> J \<le> (if 3 < (J + 6) mod 7 then J - (J + 6) mod 7 + 7 else J - (J + 6) mod 7) + 3
      \<and> (if 3 < (J + 6) mod 7 then J - (J + 6) mod 7 + 7 else J - (J + 6) mod 7) + 3 \<le> J + 6"
    by presburger
  then show ?thesis
    unfolding isoweek1monday_def jan1 Let_def J_def by simp
qed

lemma week_split:
  fixes d W :: int
  assumes "(W + 6) mod 7 = 0"
  shows "(d + 6) mod 7 = (d - W) mod 7 \<and> d - (d + 6) mod 7 = W + 7 * ((d - W) div 7)"
proof -
  define q where "q = (d - W) div 7"
  define r where "r = (d - W) mod 7"
  have d: "d = W + 7 * q + r" and r: "0 \<le> r" "r < 7"
    by (simp_all add: q_def r_def)
  from assms obtain k where k: "W + 6 = 7 * k"
    by (auto simp: mod_eq_0_iff_dvd)
  have "d + 6 = 7 * (k + q) + r" using d k by simp
  then have m: "(d + 6) mod 7 = r" using r by (intro int_mod_pos_eq [where q = "k + q"]) simp_all
  have "d - r = W + 7 * q" using d by simp
  with m show ?thesis by (simp add: q_def r_def)
qed

lemma same_week:
  fixes d W J :: int
  assumes "(W + 6) mod 7 = 0" and "J \<le> W + 3" and "W + 3 \<le> J + 6"
  shows "(d - (d + 6) mod 7 + 3 - J) div 7 = (d - W) div 7"
proof -
  have "d - (d + 6) mod 7 + 3 - J = 7 * ((d - W) div 7) + (W + 3 - J)"
    using week_split [OF assms(1), of d] by simp
  then show ?thesis
    using assms(2,3) by (intro int_div_pos_eq [where r = "W + 3 - J"]) simp_all
qed

lemma div7_neg: "(x::int) div 7 < 0 \<longleftrightarrow> x < 0"
  by (simp add: pos_imp_zdiv_neg_iff)

lemma div7_bounds: "7 * ((x::int) div 7) \<le> x \<and> x < 7 * (x div 7) + 7"
proof -
  have "x = 7 * (x div 7) + x mod 7" by simp
  moreover have "0 \<le> x mod 7" "x mod 7 < 7" by simp_all
  ultimately show ?thesis by linarith
qed

lemma iso_week_range:
  assumes "is_iso_week dt y w"
  shows "1 \<le> w \<and> w \<le> 53"
proof -
  define x where "x = week_thursday dt - ymd2ord y 1 1"
  from assms have x: "0 \<le> x" "x < days_before_year (y + 1) - days_before_year y" and w: "w = x div 7 + 1"
    by (simp_all add: is_iso_week_def x_def jan1)
  from x(2) year_length [of y] have "x < 366" by (simp split: if_splits)
  with div7_bounds [of x] x(1) have "0 \<le> x div 7" "x div 7 \<le> 52" by linarith+
  with w show ?thesis by simp
qed

text \<open>
  The library's week computation gives the ISO week: the year it returns holds the
  Thursday of the date's week, and the week number counts the Thursdays of that year.
\<close>

lemma isocalendar_iso_week:
  assumes "valid_date dt"
  shows "is_iso_week dt (fst (isocalendar dt)) (fst (snd (isocalendar dt)))
       \<and> snd (snd (isocalendar dt)) = weekday dt + 1"
proof -
  define Y where "Y = year dt"
  define d where "d = toordinal dt"
  define r where "r = (d + 6) mod 7"
  define t where "t = d - r + 3"
  define W0 where "W0 = isoweek1monday (Y - 1)"
  define W1 where "W1 = isoweek1monday Y"
  define W2 where "W2 = isoweek1monday (Y + 1)"
  define J0 where "J0 = days_before_year (Y - 1) + 1"
  define J1 where "J1 = days_before_year Y + 1"
  define J2 where "J2 = days_before_year (Y + 1) + 1"
  define J3 where "J3 = days_before_year (Y + 1 + 1) + 1"
  have r: "0 \<le> r" "r < 7" by (simp_all add: r_def)
  have range: "J1 \<le> d" "d < J2"
    using day_in_year [OF assms] by (simp_all add: J1_def J2_def d_def Y_def)
  have len: "J0 + 365 \<le> J1" "J1 + 365 \<le> J2" "J2 + 365 \<le> J3" "J1 \<le> J0 + 366" "J2 \<le> J1 + 366"
    using year_bounds [of "Y - 1"] year_bounds [of Y] year_bounds [of "Y + 1"]
    unfolding J0_def J1_def J2_def J3_def by simp_all
  have m0: "(W0 + 6) mod 7 = 0" "J0 \<le> W0 + 3" "W0 + 3 \<le> J0 + 6"
    using week1monday [of "Y - 1"] by (simp_all add: W0_def J0_def)
  have m1: "(W1 + 6) mod 7 = 0" "J1 \<le> W1 + 3" "W1 + 3 \<le> J1 + 6"
    using week1monday [of Y] by (simp_all add: W1_def J1_def)
  have m2: "(W2 + 6) mod 7 = 0" "J2 \<le> W2 + 3" "W2 + 3 \<le> J2 + 6"
    using week1monday [of "Y + 1"] by (simp_all add: W2_def J2_def)
  have s0: "r = (d - W0) mod 7" "t = W0 + 7 * ((d - W0) div 7) + 3"
    using week_split [OF m0(1), of d] by (simp_all add: r_def t_def)
  have s1: "r = (d - W1) mod 7" "t = W1 + 7 * ((d - W1) div 7) + 3"
    using week_split [OF m1(1), of d] by (simp_all add: r_def t_def)
  have s2: "r = (d - W2) mod 7" "t = W2 + 7 * ((d - W2) div 7) + 3"
    using week_split [OF m2(1), of d] by (simp_all add: r_def t_def)
  have k0: "(t - J0) div 7 = (d - W0) div 7"
    using same_week [OF m0, of d] by (simp add: t_def r_def)
  have k1: "(t - J1) div 7 = (d - W1) div 7"
    using same_week [OF m1, of d] by (simp add: t_def r_def)
  have th: "week_thursday dt = t"
    by (simp add: week_thursday_def weekday_def t_def r_def d_def)
  have wd: "weekday dt = r"
    by (simp add: weekday_def r_def d_def)
  have iso: "is_iso_week dt y w \<longleftrightarrow> days_before_year y + 1 \<le> t \<and> t < days_before_year (y + 1) + 1
                \<and> w = (t - (days_before_year y + 1)) div 7 + 1" for y w
    by (simp add: is_iso_week_def jan1 th)
  consider (earlier) "(d - W1) div 7 < 0"
    | (later) "\<not> (d - W1) div 7 < 0" "52 \<le> (d - W1) div 7 \<and> W2 \<le> d"
    | (same) "\<not> (d - W1) div 7 < 0" "\<not> (52 \<le> (d - W1) div 7 \<and> W2 \<le> d)"
    by blast
  then show ?thesis
  proof cases
    case earlier
    then have res: "isocalendar dt = (Y - 1, (d - W0) div 7 + 1, (d - W0) mod 7 + 1)"
      by (simp add: isocalendar_def Let_def Y_def [symmetric] d_def [symmetric] W1_def [symmetric] W0_def [symmetric])
    have "J0 \<le> t" using range(1) len(1) r by (simp add: t_def)
    moreover have "t < J1" using earlier s1(2) m1(3) by linarith
    ultimately show ?thesis
      using res k0 s0(1) by (simp add: iso wd J0_def J1_def)
  next
    case later
    then have res: "isocalendar dt = (Y + 1, 1, (d - W1) mod 7 + 1)"
      by (simp add: isocalendar_def Let_def Y_def [symmetric] d_def [symmetric] W1_def [symmetric] W2_def [symmetric])
    from later(2) have "0 \<le> d - W2" by simp
    moreover have "d - W2 < 7" using range(2) m2(2) by linarith
    ultimately have "(d - W2) div 7 = 0" by simp
    with s2(2) have t2: "t = W2 + 3" by simp
    then have "0 \<le> t - J2" "t - J2 < 7" using m2(2,3) by linarith+
    then have "(t - J2) div 7 = 0" by simp
    moreover have "J2 \<le> t" "t < J3" using t2 m2(2,3) len(3) by linarith+
    ultimately show ?thesis
      using res s1(1) by (simp add: iso wd J2_def J3_def)
  next
    case same
    then have res: "isocalendar dt = (Y, (d - W1) div 7 + 1, (d - W1) mod 7 + 1)"
      by (auto simp: isocalendar_def Let_def Y_def [symmetric] d_def [symmetric] W1_def [symmetric] W2_def [symmetric])
    have lo: "J1 \<le> t" using same(1) s1(2) m1(2) by linarith
    have hi: "t < J2"
    proof (cases "(d - W1) div 7 < 52")
      case True
      then show ?thesis using s1(2) m1(3) len(2) by linarith
    next
      case False
      with same(2) have "d < W2" by simp
      then have "(d - W2) div 7 < 0" by (simp add: div7_neg)
      then show ?thesis using s2(2) m2(3) by linarith
    qed
    from lo hi show ?thesis
      using res k1 s1(1) by (simp add: iso wd J1_def J2_def)
  qed
qed

lemma iso_week_examples:
  "is_iso_week sample_date 2020 53"
  "is_iso_week \<lparr> year = 2024, month = 12, day = 30 \<rparr> 2025 1"
  "is_iso_week \<lparr> year = 2026, month = 11, day = 4 \<rparr> 2026 45"
  by code_simp+

lemma iso_year_near:
  "year dt - 1 \<le> fst (isocalendar dt)"
  by (simp add: isocalendar_def Let_def)

lemma valid_date_bounds:
  assumes "valid_date dt"
  shows "1 \<le> month dt \<and> month dt < 100 \<and> 1 \<le> day dt \<and> day dt < 100 \<and> 1 \<le> year dt \<and> year dt < 10000"
proof -
  from assms have m: "1 \<le> month dt" "month dt \<le> 12" and d: "1 \<le> day dt" "day dt \<le> days_in_month (year dt) (month dt)"
    and y: "1 \<le> year dt" "year dt \<le> 9999"
    by (simp_all add: valid_date_def)
  have "days_in_month (year dt) (month dt) \<le> 31" by (simp add: days_in_month_def)
  with m d y show ?thesis by simp
qed

text \<open>
  C3. For a date that the clock can give (a valid date; the year has four digits, which
  is what \<^verbatim>\<open>%Y\<close> is relied on for), the tag is \<^verbatim>\<open>github-trending\<close>, the period, the
  bucket and the lower-cased language (\<^verbatim>\<open>all\<close> when none is given), joined by colons. The
  weekly bucket is the ISO year, \<^verbatim>\<open>-W\<close> and the two-digit ISO week of the date; the
  monthly bucket is the four-digit year and the two-digit month; the daily bucket adds the
  two-digit day.
\<close>

theorem source_tag_bucket:
  assumes "valid_date now" and "1000 \<le> year now"
  shows "(since = ''weekly'' \<longrightarrow>
           (\<exists>y w Y W. is_iso_week now y w \<and> py_int Y = Inr y \<and> py_int W = Inr w
              \<and> list_all is_digit Y \<and> list_all is_digit W \<and> length W = 2
              \<and> build_source_tag since language now =
                  ''github-trending:weekly:'' @ Y @ ''-W'' @ W @ '':'' @ lower (or_default language ''all'')))
       \<and> (since = ''monthly'' \<longrightarrow>
           (\<exists>Y M. py_int Y = Inr (year now) \<and> py_int M = Inr (month now)
              \<and> list_all is_digit Y \<and> list_all is_digit M \<and> length Y = 4 \<and> length M = 2
              \<and> build_source_tag since language now =
                  ''github-trending:monthly:'' @ Y @ ''-'' @ M @ '':'' @ lower (or_default language ''all'')))
       \<and> (since = ''daily'' \<longrightarrow>
           (\<exists>Y M D. py_int Y = Inr (year now) \<and> py_int M = Inr (month now) \<and> py_int D = Inr (day now)
              \<and> list_all is_digit Y \<and> list_all is_digit M \<and> list_all is_digit D
              \<and> length Y = 4 \<and> length M = 2 \<and> length D = 2
              \<and> build_source_tag since language now =
                  ''github-trending:daily:'' @ Y @ ''-'' @ M @ ''-'' @ D @ '':'' @ lower (or_default language ''all'')))"
proof -
  note b = valid_date_bounds [OF assms(1)]
  let ?lang = "lower (or_default language ''all'')"
  let ?Y = "zfill 4 (year now)" and ?M = "zfill 2 (month now)" and ?D = "zfill 2 (day now)"
  have Y: "py_int ?Y = Inr (year now)" "list_all is_digit ?Y" "length ?Y = 4"
    using b by (simp_all add: py_int_zfill zfill_digits length_zfill4)
  have M: "py_int ?M = Inr (month now)" "list_all is_digit ?M" "length ?M = 2"
    using b by (simp_all add: py_int_zfill zfill_digits length_zfill2)
  have D: "py_int ?D = Inr (day now)" "list_all is_digit ?D" "length ?D = 2"
    using b by (simp_all add: py_int_zfill zfill_digits length_zfill2)
  have weekly: "\<exists>y w Y W. is_iso_week now y w \<and> py_int Y = Inr y \<and> py_int W = Inr w
              \<and> list_all is_digit Y \<and> list_all is_digit W \<and> length W = 2
              \<and> build_source_tag ''weekly'' language now =
                  ''github-trending:weekly:'' @ Y @ ''-W'' @ W @ '':'' @ ?lang"
  proof -
    define y where "y = fst (isocalendar now)"
    define w where "w = fst (snd (isocalendar now))"
    have iso: "is_iso_week now y w"
      using isocalendar_iso_week [OF assms(1)] by (simp add: y_def w_def)
    have y0: "0 \<le> y" using iso_year_near [of now] b by (simp add: y_def)
    have w0: "1 \<le> w" "w \<le> 53" using iso_week_range [OF iso] by simp_all
    have tag: "build_source_tag ''weekly'' language now =
                  ''github-trending:weekly:'' @ py_str y @ ''-W'' @ zfill 2 w @ '':'' @ ?lang"
      by (simp add: build_source_tag_def Let_def y_def w_def case_prod_beta)
    have "py_int (py_str y) = Inr y" "list_all is_digit (py_str y)"
      using y0 by (simp_all add: py_int_py_str py_str_digits)
    moreover have "py_int (zfill 2 w) = Inr w" "list_all is_digit (zfill 2 w)" "length (zfill 2 w) = 2"
      using w0 by (simp_all add: py_int_zfill zfill_digits length_zfill2)
    ultimately show ?thesis using iso tag by blast
  qed
  have monthly: "build_source_tag ''monthly'' language now =
                  ''github-trending:monthly:'' @ ?Y @ ''-'' @ ?M @ '':'' @ ?lang"
    by (simp add: build_source_tag_def Let_def strftime_Y_m_def strftime_Y_def)
  have daily: "build_source_tag ''daily'' language now =
                  ''github-trending:daily:'' @ ?Y @ ''-'' @ ?M @ ''-'' @ ?D @ '':'' @ ?lang"
    by (simp add: build_source_tag_def Let_def strftime_Y_m_d_def strftime_Y_def)
  from weekly monthly daily Y M D show ?thesis by blast
qed

theorem source_tag_bucket_witness:
  "valid_date sample_date \<and> 1000 \<le> year sample_date
   \<and> build_source_tag ''weekly'' (Some ''Python'') sample_date = ''github-trending:weekly:2020-W53:python''
   \<and> build_source_tag ''monthly'' None sample_date = ''github-trending:monthly:2021-01:all''
   \<and> build_source_tag ''daily'' (Some ''Rust'') sample_date = ''github-trending:daily:2021-01-03:rust''
   \<and> (\<exists>y w. is_iso_week sample_date y w)"
proof -
  have v: "valid_date sample_date" by code_simp
  have y: "1000 \<le> year sample_date" by (simp add: sample_date_def)
  have t: "build_source_tag ''weekly'' (Some ''Python'') sample_date = ''github-trending:weekly:2020-W53:python''"
    "build_source_tag ''monthly'' None sample_date = ''github-trending:monthly:2021-01:all''"
    "build_source_tag ''daily'' (Some ''Rust'') sample_date = ''github-trending:daily:2021-01-03:rust''"
    by code_simp+
  from source_tag_bucket [OF v y, of "''weekly''" "Some ''Python''"]
  have "\<exists>y w. is_iso_week sample_date y w" by blast
  with v y t show ?thesis by simp
qed

end
